theory Spec2Isabelle
  imports Main "HOL-Library.Word" "HOL-Library.Sublist" "HOL-Library.AList"
begin

section \<open>Go standard library: package \<open>path\<close>\<close>

text \<open>
  \<open>imports.go\<close> calls \<open>path.Clean\<close>, \<open>path.Dir\<close> and \<open>path.Join\<close>. They are
  modelled on slash-separated components: \<open>Clean\<close> drops empty and \<open>.\<close> elements,
  lets an inner \<open>..\<close> cancel the element before it, drops a \<open>..\<close> that begins a
  rooted path, and returns \<open>.\<close> for an empty result.
\<close>

fun split_slash :: "string \<Rightarrow> string list" where
  "split_slash [] = [[]]"
| "split_slash (c # cs) =
     (if c = CHR ''/'' then [] # split_slash cs
      else (case split_slash cs of
              [] \<Rightarrow> [[c]]
            | x # xs \<Rightarrow> (c # x) # xs))"

fun join_slash :: "string list \<Rightarrow> string" where
  "join_slash [] = []"
| "join_slash [x] = x"
| "join_slash (x # y # ys) = x @ CHR ''/'' # join_slash (y # ys)"

text \<open>The element stack of \<open>Clean\<close>, its top at the head of the list.\<close>

definition clean_step :: "bool \<Rightarrow> string list \<Rightarrow> string \<Rightarrow> string list" where
  "clean_step rooted st el =
     (if el = [] \<or> el = ''.'' then st
      else if el = ''..'' then
        (case st of
           [] \<Rightarrow> if rooted then [] else [''..'']
         | t # ts \<Rightarrow> if t = ''..'' then ''..'' # st else ts)
      else el # st)"

definition path_Clean :: "string \<Rightarrow> string" where
  "path_Clean p =
     (if p = [] then ''.''
      else
        let rooted = (hd p = CHR ''/'');
            body = join_slash (rev (foldl (clean_step rooted) [] (split_slash p)))
        in if rooted then CHR ''/'' # body
           else if body = [] then ''.'' else body)"

text \<open>\<open>path.Split\<close> cuts right after the final slash; \<open>path.Dir\<close> cleans the first half.\<close>

definition path_Split_dir :: "string \<Rightarrow> string" where
  "path_Split_dir p = rev (dropWhile (\<lambda>c. c \<noteq> CHR ''/'') (rev p))"

definition path_Dir :: "string \<Rightarrow> string" where
  "path_Dir p = path_Clean (path_Split_dir p)"

text \<open>\<open>path.Join\<close> ignores leading empty elements, joins the rest with slashes and
  cleans; it returns the empty string when every element is empty.\<close>

definition path_Join :: "string list \<Rightarrow> string" where
  "path_Join elems =
     (case dropWhile (\<lambda>e. e = []) elems of
        [] \<Rightarrow> []
      | es \<Rightarrow> path_Clean (join_slash es))"

section \<open>Bytes\<close>

text \<open>\<open>bytes.ReplaceAll(s, old, new)\<close>, which is \<open>strings.ReplaceAll\<close> on bytes: the
  occurrences of \<open>old\<close> in \<open>s\<close> that do not overlap, found from the left, are
  replaced by \<open>new\<close>. An empty \<open>old\<close> matches before every byte and at the end.\<close>

function bytes_ReplaceAll :: "string \<Rightarrow> string \<Rightarrow> string \<Rightarrow> string" where
  "bytes_ReplaceAll s old new =
     (if old = [] then new @ concat (map (\<lambda>c. c # new) s)
      else if s = [] then []
      else if prefix old s then new @ bytes_ReplaceAll (drop (length old) s) old new
      else hd s # bytes_ReplaceAll (tl s) old new)"
  by pat_completeness auto
termination
  by (relation "measure (\<lambda>(s, old, new). length s)") auto

declare bytes_ReplaceAll.simps [simp del]

text \<open>\<open>bytes.Contains\<close>.\<close>

fun bytes_Contains :: "string \<Rightarrow> string \<Rightarrow> bool" where
  "bytes_Contains [] sub = (sub = [])"
| "bytes_Contains (c # cs) sub = (prefix sub (c # cs) \<or> bytes_Contains cs sub)"

section \<open>Errors\<close>

text \<open>An error of a collaborator (Gateway, state, parser, transaction builder) is
  opaque to this code: only its message is kept.\<close>

type_synonym ext_error = string

datatype error =
    ErrDoesNotExist
      \<comment> \<open>\<open>config.ErrDoesNotExist\<close>\<close>
  | ErrKeysWeightsMismatch nat nat
      \<comment> \<open>number of keys and weights provided must match\<close>
  | ErrInvalidAccountKey ext_error
      \<comment> \<open>invalid account key: ...\<close>
  | ErrWrongContractFormat string
      \<comment> \<open>wrong format for contract\<close>
  | ErrAddressNotFetched
      \<comment> \<open>new account address couldn't be fetched\<close>
  | ErrUnresolvedImport string
      \<comment> \<open>import ... could not be resolved from the configuration\<close>
  | errUpdateNoDiff
      \<comment> \<open>contract already exists and is the same as the contract provided for update\<close>
  | ErrContractExists string string
      \<comment> \<open>contract ... exists in account ...\<close>
  | ErrRemoveNonExisting string string
      \<comment> \<open>can not remove a non-existing contract named ...; the contracts joined by \<open>, \<close>\<close>
  | ErrSendFailed ext_error
      \<comment> \<open>failed to send transaction to deploy a contract: ...\<close>
  | ErrAccountCreationFailed ext_error
      \<comment> \<open>account creation transaction failed: ...\<close>
  | ErrExternal ext_error
      \<comment> \<open>a collaborator's error, returned as it came\<close>
  | PanicIndexOutOfRange nat nat
      \<comment> \<open>runtime panic: index out of range [i] with length n\<close>
  | PanicNilDereference
      \<comment> \<open>runtime panic: nil pointer dereference\<close>

section \<open>Scripts, programs and contracts\<close>

type_synonym flow_Address = "64 word"

text \<open>An argument of a script (a \<open>cadence.Value\<close>) is carried around and never
  inspected; its encoding stands for it.\<close>

type_synonym cadence_Value = string

text \<open>A script (\<open>flowkit.Script\<close>) as the sources at hand read it: its
  \<open>Code()\<close>, its \<open>Args\<close>, and the location its program resolves imports from.
  \<open>AddContract\<close> holds it by pointer.\<close>

record Script =
  code :: string
  Args :: "cadence_Value list"
  location :: string

text \<open>What the Cadence parser gives for a source: the string locations of its import
  declarations, in order, and the declared contract name (or why there is none).\<close>

record ast_Program =
  ast_imports :: "string list"
  ast_name :: "ext_error + string"

text \<open>The libraries the import replacer is built on: the Cadence parser and the address
  functions of the Flow SDK (\<open>flow.HexToAddress\<close>, \<open>Address.String\<close>).\<close>

record libs =
  ParseProgram :: "string \<Rightarrow> ext_error + ast_Program"
  HexToAddress :: "string \<Rightarrow> flow_Address"
  Address_String :: "flow_Address \<Rightarrow> string"

text \<open>
  Modelled from the spec: the type \<open>Program\<close> (\<open>project/program.go\<close>) with its
  methods \<open>NewProgram\<close>, \<open>Imports\<close>, \<open>HasImports\<close>, \<open>Location\<close>, \<open>Code\<close>,
  \<open>Name\<close> and \<open>ReplaceImport\<close> is missing. The spec: a Program "wraps one contract's
  raw source; exposes (a) the set of import statements found in the source (each an
  import path string), (b) the declared contract name extracted from source, (c) the
  ability to produce a new Program with a given import path textually replaced by a
  resolved target string. Location is stored to support relative-path resolution of its
  own imports. Invariant: resolution is syntactic (string substitution), not semantic".
  So a program holds a script, and what it exposes is read off the current source of
  that script by the parser.

  \<open>Replace\<close> (\<open>imports.go\<close>, line 51) drops what \<open>ReplaceImport\<close> returns and
  goes on with the program it holds: the replacement is an update in place of the
  program, and \<open>Replace\<close> below returns the program in the state it leaves it in. The text
  replaced is the import path in its quotes, and the text put there is \<open>0x\<close>
  followed by the target, wherever the quoted path occurs: the test
  \<open>Deploy Complex Project\<close> computes the source it expects on the account with
  \<open>strings.ReplaceAll(source, `"./contractA.cdc"`, "0x" + address)\<close>.
\<close>

record Program =
  script :: Script

definition NewProgram :: "libs \<Rightarrow> Script \<Rightarrow> ext_error + Program" where
  "NewProgram L s =
     (case ParseProgram L (code s) of
        Inl e \<Rightarrow> Inl e
      | Inr _ \<Rightarrow> Inr \<lparr>script = s\<rparr>)"

definition Program_Code :: "Program \<Rightarrow> string" where
  "Program_Code p = code (script p)"

definition Program_Location :: "Program \<Rightarrow> string" where
  "Program_Location p = location (script p)"

definition Imports :: "libs \<Rightarrow> Program \<Rightarrow> string list" where
  "Imports L p =
     (case ParseProgram L (Program_Code p) of
        Inl _ \<Rightarrow> []
      | Inr a \<Rightarrow> ast_imports a)"

definition HasImports :: "libs \<Rightarrow> Program \<Rightarrow> bool" where
  "HasImports L p = (Imports L p \<noteq> [])"

definition Program_Name :: "libs \<Rightarrow> Program \<Rightarrow> ext_error + string" where
  "Program_Name L p =
     (case ParseProgram L (Program_Code p) of
        Inl e \<Rightarrow> Inl e
      | Inr a \<Rightarrow> ast_name a)"

definition quoted :: "string \<Rightarrow> string" where
  "quoted s = CHR 0x22 # s @ [CHR 0x22]"

definition ReplaceImport :: "string \<Rightarrow> string \<Rightarrow> Program \<Rightarrow> Program" where
  "ReplaceImport frm to p =
     p\<lparr>script := (script p)\<lparr>code :=
          bytes_ReplaceAll (code (script p)) (quoted frm) (''0x'' @ to)\<rparr>\<rparr>"

text \<open>
  Modelled from the spec: the type \<open>Contract\<close> of package \<open>project\<close> is missing;
  the spec gives it a \<open>name\<close>, a \<open>location\<close> and a \<open>target account address\<close>,
  which are the fields \<open>getContractsLocations\<close> reads.
\<close>

record Contract =
  Contract_Name :: string
  Contract_Location :: string
  AccountAddress :: flow_Address

text \<open>\<open>Aliases\<close> is a Go map from location to hex address. Go ranges over a map in
  an order of its own choosing: the list gives the entries in the order of one run.\<close>

type_synonym Aliases = "(string \<times> string) list"

section \<open>\<open>imports.go\<close>: the import replacer\<close>

record ImportReplacer =
  contracts :: "Contract list"
  aliases :: Aliases

definition NewImportReplacer :: "Contract list \<Rightarrow> Aliases \<Rightarrow> ImportReplacer" where
  "NewImportReplacer cs al = \<lparr>contracts = cs, aliases = al\<rparr>"

definition absolutePath :: "string \<Rightarrow> string \<Rightarrow> string" where
  "absolutePath basePath relativePath = path_Join [path_Dir basePath, relativePath]"

definition getContractsLocations :: "libs \<Rightarrow> ImportReplacer \<Rightarrow> (string \<rightharpoonup> string)" where
  "getContractsLocations L i =
     (let sourceTarget =
            foldl (\<lambda>m contract.
                     m(path_Clean (Contract_Location contract) \<mapsto>
                         Address_String L (AccountAddress contract)))
                  Map.empty (contracts i)
      in foldl (\<lambda>m (source, target).
                  m(path_Clean source \<mapsto> Address_String L (HexToAddress L target)))
               sourceTarget (aliases i))"

definition importLocation :: "Program \<Rightarrow> string \<Rightarrow> string" where
  "importLocation program imp = path_Clean (absolutePath (Program_Location program) imp)"

text \<open>The loop of \<open>Replace\<close> over the imports read before it starts. The location of
  the program does not change, the source does. The second component is the program
  the caller holds, in the state the call leaves it in.\<close>

fun Replace_loop ::
  "(string \<rightharpoonup> string) \<Rightarrow> Program \<Rightarrow> string list \<Rightarrow> (error + unit) \<times> Program" where
  "Replace_loop contractsLocations program [] = (Inr (), program)"
| "Replace_loop contractsLocations program (imp # imps) =
     (case contractsLocations (importLocation program imp) of
        None \<Rightarrow> (Inl (ErrUnresolvedImport imp), program)
      | Some target \<Rightarrow>
          Replace_loop contractsLocations (ReplaceImport imp target program) imps)"

definition Replace :: "libs \<Rightarrow> ImportReplacer \<Rightarrow> Program \<Rightarrow> (error + unit) \<times> Program" where
  "Replace L i program =
     (let imports = Imports L program;
          contractsLocations = getContractsLocations L i
      in Replace_loop contractsLocations program imports)"

text \<open>The table as the specification words it: one entry per contract (cleaned
  location, stringified target-account address), then one entry per alias (cleaned
  location, the hex address converted and stringified the same way).\<close>

definition contract_entries :: "libs \<Rightarrow> Contract list \<Rightarrow> (string \<times> string) list" where
  "contract_entries L cs =
     map (\<lambda>c. (path_Clean (Contract_Location c), Address_String L (AccountAddress c))) cs"

definition alias_entries :: "libs \<Rightarrow> Aliases \<Rightarrow> (string \<times> string) list" where
  "alias_entries L al =
     map (\<lambda>(source, target). (path_Clean source, Address_String L (HexToAddress L target))) al"

section \<open>Collaborators of the account service\<close>

type_synonym flow_Identifier = string

type_synonym flow_Block = string

text \<open>An account on the chain (\<open>flow.Account\<close>). \<open>Contracts\<close> is a Go map from
  contract name to code; the list gives its entries in the order in which one run
  ranges over them.\<close>

record flow_Account =
  Address :: flow_Address
  Contracts :: "(string \<times> string) list"

text \<open>A configured account that signs (\<open>flowkit.Account\<close>).\<close>

record flowkit_Account =
  Account_Name :: string
  Account_Address :: flow_Address
  Key_Index :: nat

text \<open>
  Modelled from the spec: \<open>flowkit.EventsFromTransaction\<close> and
  \<open>GetCreatedAddresses\<close> are missing. The spec: \<open>Create\<close> "extracts the newly
  created account's address from the sealed result's emitted events; zero
  created-address events is an error". A result carries its execution error, if any,
  and its events; an event either reports a created account or is something else.
\<close>

datatype flow_Event = AccountCreated flow_Address | OtherEvent string

record TransactionResult =
  Error :: "ext_error option"
  Events :: "flow_Event list"

record AccountKey =
  PublicKey :: string
  SigAlgo :: nat
  HashAlgo :: nat
  Weight :: int

record templates_Contract =
  Name :: string
  Source :: string

definition AccountKeyWeightThreshold :: int where
  "AccountKeyWeightThreshold = 1000"

text \<open>The Gateway of the spec's section 6, over a world \<open>'w\<close> (the network as the
  calls find and leave it) and the transactions \<open>'tx\<close> of package \<open>flowkit\<close>.\<close>

record ('w, 'tx) Gateway =
  GetAccount :: "flow_Address \<Rightarrow> 'w \<Rightarrow> (ext_error + flow_Account) \<times> 'w"
  GetLatestBlock :: "'w \<Rightarrow> (ext_error + flow_Block) \<times> 'w"
  SendSignedTransaction :: "'tx \<Rightarrow> 'w \<Rightarrow> (ext_error + 'tx) \<times> 'w"
  GetTransactionResult ::
    "flow_Identifier \<Rightarrow> bool \<Rightarrow> 'w \<Rightarrow> (ext_error + TransactionResult) \<times> 'w"

text \<open>The project state (\<open>flowkit.State\<close>), read only.\<close>

record State =
  DeploymentContractsByNetwork :: "string \<Rightarrow> ext_error + Contract list"
  AliasesForNetwork :: "string \<Rightarrow> Aliases"
  ReadFile :: "string \<Rightarrow> ext_error + string"

text \<open>
  Package \<open>flowkit\<close>'s transactions and the SDK's key validation are not part of the
  sources at hand: the service calls them through their signatures. The transaction
  builders, \<open>SetProposer\<close> and \<open>Sign\<close> can fail; \<open>SetBlockReference\<close> cannot.
  \<open>tx_ID\<close> is \<open>tx.ID()\<close>, \<open>Validate\<close> is \<open>accKey.Validate()\<close>.

  \<open>Script_Code contract program\<close> is \<open>contract.Code()\<close> as \<open>AddContract\<close> calls it
  on line 360: on the script it was given, after a program has been made from that
  script and its imports resolved. Whether that program shares the script or holds a
  copy of its source is settled in \<open>NewProgram\<close>, which is not at hand, so what
  \<open>Code()\<close> returns there is taken as it comes.
\<close>

record 'tx flowkit =
  NewAddAccountContractTransaction ::
    "flowkit_Account \<Rightarrow> string \<Rightarrow> string \<Rightarrow> cadence_Value list \<Rightarrow> ext_error + 'tx"
  NewUpdateAccountContractTransaction ::
    "flowkit_Account \<Rightarrow> string \<Rightarrow> string \<Rightarrow> ext_error + 'tx"
  NewRemoveAccountContractTransaction :: "flowkit_Account \<Rightarrow> string \<Rightarrow> ext_error + 'tx"
  NewCreateAccountTransaction ::
    "flowkit_Account \<Rightarrow> AccountKey list \<Rightarrow> templates_Contract list \<Rightarrow> ext_error + 'tx"
  SetBlockReference :: "'tx \<Rightarrow> flow_Block \<Rightarrow> 'tx"
  SetProposer :: "'tx \<Rightarrow> flow_Account \<Rightarrow> nat \<Rightarrow> ext_error + 'tx"
  Sign :: "'tx \<Rightarrow> ext_error + 'tx"
  tx_ID :: "'tx \<Rightarrow> flow_Identifier"
  Validate :: "AccountKey \<Rightarrow> ext_error option"
  Script_Code :: "Script \<Rightarrow> Program \<Rightarrow> string"

definition GetCreatedAddresses :: "TransactionResult \<Rightarrow> flow_Address list" where
  "GetCreatedAddresses r =
     concat (map (\<lambda>e. case e of AccountCreated a \<Rightarrow> [a] | OtherEvent _ \<Rightarrow> []) (Events r))"

text \<open>The service (\<open>Accounts\<close>); its logger only displays progress and is left out.
  \<open>state\<close> is a pointer that can be nil.\<close>

record ('w, 'tx) Accounts =
  gateway :: "('w, 'tx) Gateway"
  state :: "State option"

section \<open>A run: the world and the Gateway calls made so far\<close>

datatype 'tx call =
    Call_GetAccount flow_Address
  | Call_GetLatestBlock
  | Call_SendSignedTransaction 'tx
  | Call_GetTransactionResult flow_Identifier bool

record ('w, 'tx) run =
  world :: 'w
  calls :: "'tx call list"

definition call_GetAccount ::
  "('w, 'tx) Gateway \<Rightarrow> flow_Address \<Rightarrow> ('w, 'tx) run \<Rightarrow> (ext_error + flow_Account) \<times> ('w, 'tx) run" where
  "call_GetAccount G address r =
     (case GetAccount G address (world r) of
        (res, w) \<Rightarrow> (res, \<lparr>world = w, calls = calls r @ [Call_GetAccount address]\<rparr>))"

definition call_GetLatestBlock ::
  "('w, 'tx) Gateway \<Rightarrow> ('w, 'tx) run \<Rightarrow> (ext_error + flow_Block) \<times> ('w, 'tx) run" where
  "call_GetLatestBlock G r =
     (case GetLatestBlock G (world r) of
        (res, w) \<Rightarrow> (res, \<lparr>world = w, calls = calls r @ [Call_GetLatestBlock]\<rparr>))"

definition call_SendSignedTransaction ::
  "('w, 'tx) Gateway \<Rightarrow> 'tx \<Rightarrow> ('w, 'tx) run \<Rightarrow> (ext_error + 'tx) \<times> ('w, 'tx) run" where
  "call_SendSignedTransaction G tx r =
     (case SendSignedTransaction G tx (world r) of
        (res, w) \<Rightarrow> (res, \<lparr>world = w, calls = calls r @ [Call_SendSignedTransaction tx]\<rparr>))"

definition call_GetTransactionResult ::
  "('w, 'tx) Gateway \<Rightarrow> flow_Identifier \<Rightarrow> bool \<Rightarrow> ('w, 'tx) run \<Rightarrow>
   (ext_error + TransactionResult) \<times> ('w, 'tx) run" where
  "call_GetTransactionResult G ident sealed r =
     (case GetTransactionResult G ident sealed (world r) of
        (res, w) \<Rightarrow> (res, \<lparr>world = w, calls = calls r @ [Call_GetTransactionResult ident sealed]\<rparr>))"

text \<open>The transactions a run has submitted, in order.\<close>

fun sent :: "'tx call list \<Rightarrow> 'tx list" where
  "sent [] = []"
| "sent (Call_SendSignedTransaction tx # cs) = tx # sent cs"
| "sent (_ # cs) = sent cs"

section \<open>The account service\<close>

subsection \<open>\<open>prepareTransaction\<close>\<close>

definition prepareTransaction ::
  "('w, 'tx) Accounts \<Rightarrow> 'tx flowkit \<Rightarrow> 'tx \<Rightarrow> flowkit_Account \<Rightarrow> ('w, 'tx) run \<Rightarrow>
   (ext_error + 'tx) \<times> ('w, 'tx) run" where
  "prepareTransaction a K tx account r =
     (case call_GetLatestBlock (gateway a) r of
        (Inl err, r1) \<Rightarrow> (Inl err, r1)
      | (Inr block, r1) \<Rightarrow>
     (case call_GetAccount (gateway a) (Account_Address account) r1 of
        (Inl err, r2) \<Rightarrow> (Inl err, r2)
      | (Inr proposer, r2) \<Rightarrow>
     (case SetProposer K (SetBlockReference K tx block) proposer (Key_Index account) of
        Inl err \<Rightarrow> (Inl err, r2)
      | Inr tx1 \<Rightarrow>
     (case Sign K tx1 of
        Inl err \<Rightarrow> (Inl err, r2)
      | Inr tx2 \<Rightarrow> (Inr tx2, r2)))))"

subsection \<open>\<open>AddContract\<close>\<close>

text \<open>Lines 292 to 312: the program of the contract script, its imports resolved when
  it has any. A nil \<open>state\<close> is dereferenced there.\<close>

definition AddContract_program ::
  "libs \<Rightarrow> ('w, 'tx) Accounts \<Rightarrow> Script \<Rightarrow> string \<Rightarrow> error + Program" where
  "AddContract_program L a contract network =
     (case NewProgram L contract of
        Inl err \<Rightarrow> Inl (ErrExternal err)
      | Inr program \<Rightarrow>
          if HasImports L program then
            (case state a of
               None \<Rightarrow> Inl PanicNilDereference
             | Some st \<Rightarrow>
            (case DeploymentContractsByNetwork st network of
               Inl err \<Rightarrow> Inl (ErrExternal err)
             | Inr cs \<Rightarrow>
            (case Replace L (NewImportReplacer cs (AliasesForNetwork st network)) program of
               (Inl err, _) \<Rightarrow> Inl err
             | (Inr _, program') \<Rightarrow> Inr program')))
          else Inr program)"

text \<open>Lines 367 to 397: prepare, send, wait for the seal.\<close>

definition AddContract_send ::
  "('w, 'tx) Accounts \<Rightarrow> 'tx flowkit \<Rightarrow> flowkit_Account \<Rightarrow> bool \<Rightarrow> 'tx \<Rightarrow> ('w, 'tx) run \<Rightarrow>
   (error + flow_Identifier \<times> bool) \<times> ('w, 'tx) run" where
  "AddContract_send a K account updateExisting tx r =
     (case prepareTransaction a K tx account r of
        (Inl err, r1) \<Rightarrow> (Inl (ErrExternal err), r1)
      | (Inr tx1, r1) \<Rightarrow>
     (case call_SendSignedTransaction (gateway a) tx1 r1 of
        (Inl err, r2) \<Rightarrow> (Inl (ErrSendFailed err), r2)
      | (Inr sentTx, r2) \<Rightarrow>
     (case call_GetTransactionResult (gateway a) (tx_ID K sentTx) True r2 of
        (Inl err, r3) \<Rightarrow> (Inl (ErrExternal err), r3)
      | (Inr trx, r3) \<Rightarrow>
     (case Error trx of
        Some err \<Rightarrow> (Inl (ErrExternal err), r3)
      | None \<Rightarrow> (Inr (tx_ID K sentTx, updateExisting), r3)))))"

text \<open>The whole of \<open>AddContract\<close>. The creation transaction and the comparison
  take \<open>program.Code()\<close>, the update transaction takes \<open>contract.Code()\<close>. A name
  that the account does not hold gives the nil slice for \<open>existingContract\<close>, which
  \<open>bytes.Equal\<close> takes for the empty one.\<close>

definition AddContract ::
  "libs \<Rightarrow> 'tx flowkit \<Rightarrow> ('w, 'tx) Accounts \<Rightarrow> flowkit_Account \<Rightarrow> Script \<Rightarrow> string \<Rightarrow> bool \<Rightarrow>
   ('w, 'tx) run \<Rightarrow> (error + flow_Identifier \<times> bool) \<times> ('w, 'tx) run" where
  "AddContract L K a account contract network updateExisting r =
     (case AddContract_program L a contract network of
        Inl err \<Rightarrow> (Inl err, r)
      | Inr program \<Rightarrow>
     (case Program_Name L program of
        Inl err \<Rightarrow> (Inl (ErrExternal err), r)
      | Inr name \<Rightarrow>
     (case NewAddAccountContractTransaction K account name (Program_Code program)
             (Args contract) of
        Inl err \<Rightarrow> (Inl (ErrExternal err), r)
      | Inr tx \<Rightarrow>
     (case call_GetAccount (gateway a) (Account_Address account) r of
        (Inl err, r1) \<Rightarrow> (Inl (ErrExternal err), r1)
      | (Inr flowAccount, r1) \<Rightarrow>
          let exists = (map_of (Contracts flowAccount) name \<noteq> None);
              existingContract =
                (case map_of (Contracts flowAccount) name of None \<Rightarrow> [] | Some c \<Rightarrow> c);
              noDiffInContract = (Program_Code program = existingContract)
          in
            if exists \<and> noDiffInContract then (Inl errUpdateNoDiff, r1)
            else if exists \<and> \<not> updateExisting then
              (Inl (ErrContractExists name (Account_Name account)), r1)
            else
              (case (if exists \<and> updateExisting
                     then NewUpdateAccountContractTransaction K account name
                            (Script_Code K contract program)
                     else Inr tx) of
                 Inl err \<Rightarrow> (Inl (ErrExternal err), r1)
               | Inr tx' \<Rightarrow> AddContract_send a K account updateExisting tx' r1)))))"

subsection \<open>\<open>RemoveContract\<close>\<close>

text \<open>\<open>strings.Join(elems, ", ")\<close>.\<close>

fun strings_Join :: "string list \<Rightarrow> string \<Rightarrow> string" where
  "strings_Join [] sep = []"
| "strings_Join [x] sep = x"
| "strings_Join (x # y # ys) sep = x @ sep @ strings_Join (y # ys) sep"

definition RemoveContract ::
  "'tx flowkit \<Rightarrow> ('w, 'tx) Accounts \<Rightarrow> flowkit_Account \<Rightarrow> string \<Rightarrow> ('w, 'tx) run \<Rightarrow>
   (error + flow_Identifier) \<times> ('w, 'tx) run" where
  "RemoveContract K a account contractName r =
     (case call_GetAccount (gateway a) (Account_Address account) r of
        (Inl err, r1) \<Rightarrow> (Inl (ErrExternal err), r1)
      | (Inr flowAcc, r1) \<Rightarrow>
          let existingContracts = map fst (Contracts flowAcc) in
          if contractName \<notin> set existingContracts then
            (Inl (ErrRemoveNonExisting contractName (strings_Join existingContracts '', '')), r1)
          else
     (case NewRemoveAccountContractTransaction K account contractName of
        Inl err \<Rightarrow> (Inl (ErrExternal err), r1)
      | Inr tx \<Rightarrow>
     (case prepareTransaction a K tx account r1 of
        (Inl err, r2) \<Rightarrow> (Inl (ErrExternal err), r2)
      | (Inr tx1, r2) \<Rightarrow>
     (case call_SendSignedTransaction (gateway a) tx1 r2 of
        (Inl err, r3) \<Rightarrow> (Inl (ErrExternal err), r3)
      | (Inr sentTx, r3) \<Rightarrow>
     (case call_GetTransactionResult (gateway a) (tx_ID K sentTx) True r3 of
        (Inl err, r4) \<Rightarrow> (Inl (ErrExternal err), r4)
      | (Inr txr, r4) \<Rightarrow>
     (case Error txr of
        Some err \<Rightarrow> (Inl (ErrExternal err), r4)
      | None \<Rightarrow> (Inr (tx_ID K sentTx), r4)))))))"

subsection \<open>\<open>Create\<close>\<close>

text \<open>Lines 201 to 221, the loop over the public keys, at index \<open>i\<close>. The key is
  built field by field: \<open>sigAlgo[i]\<close> is read before \<open>hashAlgo[i]\<close>, and reading
  past the end of a slice panics.\<close>

fun Create_accKeys ::
  "'tx flowkit \<Rightarrow> string list \<Rightarrow> int list \<Rightarrow> nat list \<Rightarrow> nat list \<Rightarrow> nat \<Rightarrow> AccountKey list \<Rightarrow>
   error + AccountKey list" where
  "Create_accKeys K [] keyWeights sigAlgo hashAlgo i accKeys = Inr accKeys"
| "Create_accKeys K (pubKey # pubKeys) keyWeights sigAlgo hashAlgo i accKeys =
     (let weight = (if length keyWeights > i then keyWeights ! i
                    else AccountKeyWeightThreshold)
      in
        if length sigAlgo \<le> i then Inl (PanicIndexOutOfRange i (length sigAlgo))
        else if length hashAlgo \<le> i then Inl (PanicIndexOutOfRange i (length hashAlgo))
        else
          let accKey = \<lparr>PublicKey = pubKey, SigAlgo = sigAlgo ! i, HashAlgo = hashAlgo ! i,
                        Weight = weight\<rparr>
          in (case Validate K accKey of
                Some err \<Rightarrow> Inl (ErrInvalidAccountKey err)
              | None \<Rightarrow>
                  Create_accKeys K pubKeys keyWeights sigAlgo hashAlgo (Suc i)
                    (accKeys @ [accKey])))"

text \<open>\<open>strings.SplitN(s, ":", 2)\<close>: one piece when \<open>s\<close> has no colon, else the text
  before the first colon and the text after it.\<close>

definition strings_SplitN2 :: "string \<Rightarrow> string list" where
  "strings_SplitN2 s =
     (case dropWhile (\<lambda>c. c \<noteq> CHR '':'') s of
        [] \<Rightarrow> [s]
      | _ # rest \<Rightarrow> [takeWhile (\<lambda>c. c \<noteq> CHR '':'') s, rest])"

text \<open>Lines 223 to 239, the loop over the contract arguments.\<close>

fun Create_contracts ::
  "State \<Rightarrow> string list \<Rightarrow> templates_Contract list \<Rightarrow> error + templates_Contract list" where
  "Create_contracts st [] cs = Inr cs"
| "Create_contracts st (contract # contractArgs) cs =
     (case strings_SplitN2 contract of
        [name, path] \<Rightarrow>
          (case ReadFile st path of
             Inl err \<Rightarrow> Inl (ErrExternal err)
           | Inr contractSource \<Rightarrow>
               Create_contracts st contractArgs (cs @ [\<lparr>Name = name, Source = contractSource\<rparr>]))
      | _ \<Rightarrow> Inl (ErrWrongContractFormat contract))"

text \<open>Lines 241 to 279.\<close>

definition Create_send ::
  "('w, 'tx) Accounts \<Rightarrow> 'tx flowkit \<Rightarrow> flowkit_Account \<Rightarrow> 'tx \<Rightarrow> ('w, 'tx) run \<Rightarrow>
   (error + flow_Account) \<times> ('w, 'tx) run" where
  "Create_send a K signer tx r =
     (case prepareTransaction a K tx signer r of
        (Inl err, r1) \<Rightarrow> (Inl (ErrExternal err), r1)
      | (Inr tx1, r1) \<Rightarrow>
     (case call_SendSignedTransaction (gateway a) tx1 r1 of
        (Inl err, r2) \<Rightarrow> (Inl (ErrAccountCreationFailed err), r2)
      | (Inr sentTx, r2) \<Rightarrow>
     (case call_GetTransactionResult (gateway a) (tx_ID K sentTx) True r2 of
        (Inl err, r3) \<Rightarrow> (Inl (ErrExternal err), r3)
      | (Inr result, r3) \<Rightarrow>
     (case Error result of
        Some err \<Rightarrow> (Inl (ErrExternal err), r3)
      | None \<Rightarrow>
     (case GetCreatedAddresses result of
        [] \<Rightarrow> (Inl ErrAddressNotFetched, r3)
      | newAccountAddress # _ \<Rightarrow>
     (case call_GetAccount (gateway a) newAccountAddress r3 of
        (Inl err, r4) \<Rightarrow> (Inl (ErrExternal err), r4)
      | (Inr account, r4) \<Rightarrow> (Inr account, r4)))))))"

definition Create ::
  "'tx flowkit \<Rightarrow> ('w, 'tx) Accounts \<Rightarrow> flowkit_Account \<Rightarrow> string list \<Rightarrow> int list \<Rightarrow> nat list \<Rightarrow>
   nat list \<Rightarrow> string list \<Rightarrow> ('w, 'tx) run \<Rightarrow> (error + flow_Account) \<times> ('w, 'tx) run" where
  "Create K a signer pubKeys keyWeights sigAlgo hashAlgo contractArgs r =
     (case state a of
        None \<Rightarrow> (Inl ErrDoesNotExist, r)
      | Some st \<Rightarrow>
          if length keyWeights > 0 \<and> length pubKeys \<noteq> length keyWeights then
            (Inl (ErrKeysWeightsMismatch (length pubKeys) (length keyWeights)), r)
          else
     (case Create_accKeys K pubKeys keyWeights sigAlgo hashAlgo 0 [] of
        Inl err \<Rightarrow> (Inl err, r)
      | Inr accKeys \<Rightarrow>
     (case Create_contracts st contractArgs [] of
        Inl err \<Rightarrow> (Inl err, r)
      | Inr cs \<Rightarrow>
     (case NewCreateAccountTransaction K signer accKeys cs of
        Inl err \<Rightarrow> (Inl (ErrExternal err), r)
      | Inr tx \<Rightarrow> Create_send a K signer tx r))))"


section \<open>Test doubles\<close>

text \<open>A stand-in for the Cadence parser, enough for the sources used below: an import
  is what follows \<open>from\<close> in quotes, the name is the word after \<open>contract\<close>.\<close>

fun scan_imports :: "string \<Rightarrow> string list" where
  "scan_imports [] = []"
| "scan_imports (c # cs) =
     (if prefix (''from '' @ [CHR 0x22]) (c # cs)
      then takeWhile (\<lambda>x. x \<noteq> CHR 0x22) (drop 6 (c # cs)) # scan_imports cs
      else scan_imports cs)"

fun scan_name :: "string \<Rightarrow> ext_error + string" where
  "scan_name [] = Inl ''the code must declare exactly one contract or contract interface''"
| "scan_name (c # cs) =
     (if prefix ''contract '' (c # cs)
      then Inr (takeWhile (\<lambda>x. x \<noteq> CHR '' '') (drop 9 (c # cs)))
      else scan_name cs)"

text \<open>Canned answers of the address functions for the two addresses used below.\<close>

definition test_Address_String :: "flow_Address \<Rightarrow> string" where
  "test_Address_String a =
     (if a = 0xf8d6e0586b0a20c7 then ''f8d6e0586b0a20c7''
      else if a = 1 then ''0000000000000001''
      else ''0000000000000000'')"

definition test_HexToAddress :: "string \<Rightarrow> flow_Address" where
  "test_HexToAddress h =
     (if h = ''f8d6e0586b0a20c7'' \<or> h = ''0xf8d6e0586b0a20c7'' then 0xf8d6e0586b0a20c7
      else if h = ''01'' \<or> h = ''0x01'' then 1
      else 0)"

definition test_libs :: libs where
  "test_libs =
     \<lparr>ParseProgram = (\<lambda>s. Inr \<lparr>ast_imports = scan_imports s, ast_name = scan_name s\<rparr>),
      HexToAddress = test_HexToAddress,
      Address_String = test_Address_String\<rparr>"

text \<open>Contract \<open>C\<close> imports \<open>A\<close> and \<open>B\<close>; the project configures \<open>A\<close> only.\<close>

definition srcC :: string where
  \<open>srcC = ''import A from "./a.cdc" import B from "./b.cdc" pub contract C {}''\<close>


definition contractA :: Contract where
  "contractA = \<lparr>Contract_Name = ''A'', Contract_Location = ''./contracts/a.cdc'',
                 AccountAddress = 0xf8d6e0586b0a20c7\<rparr>"

definition replA :: ImportReplacer where
  "replA = NewImportReplacer [contractA] []"

text \<open>Contract \<open>D\<close> imports \<open>A\<close> and names the file of \<open>A\<close> in a comment above
  the import.\<close>

definition srcD :: string where
  \<open>srcD = ''/* was "./a.cdc" */ import A from "./a.cdc" pub contract D {}''\<close>

definition progD :: Program where
  "progD = \<lparr>script = \<lparr>code = srcD, Args = [], location = ''contracts/d.cdc''\<rparr>\<rparr>"

text \<open>Contract \<open>E\<close> imports a contract from a file named after the address the
  contract is deployed to; a comment sets that import, in its quotes, between the two
  halves of the quoted file name.\<close>

definition srcE :: string where
  \<open>srcE = ''import A from "./0xf8d6e0586b0a20c7.cdc" /* "./"./0xf8d6e0586b0a20c7.cdc".cdc" */ pub contract E {}''\<close>

definition progE :: Program where
  "progE = \<lparr>script = \<lparr>code = srcE, Args = [], location = ''contracts/e.cdc''\<rparr>\<rparr>"

definition contractA_by_address :: Contract where
  "contractA_by_address =
     \<lparr>Contract_Name = ''A'', Contract_Location = ''./contracts/0xf8d6e0586b0a20c7.cdc'',
      AccountAddress = 0xf8d6e0586b0a20c7\<rparr>"

definition replE :: ImportReplacer where
  "replE = NewImportReplacer [contractA_by_address] []"

text \<open>A project with contract \<open>A\<close> and an alias for the same file.\<close>

definition replAlias :: ImportReplacer where
  "replAlias = NewImportReplacer [contractA] [(''contracts//a.cdc'', ''0x01'')]"

text \<open>Transactions that record what they were built for and how far they were
  prepared.\<close>

datatype test_op =
    Op_AddContract string string "cadence_Value list"
  | Op_UpdateContract string string
  | Op_RemoveContract string
  | Op_CreateAccount "AccountKey list" "templates_Contract list"

record test_tx =
  tx_op :: test_op
  tx_payer :: flow_Address
  tx_block :: "flow_Block option"
  tx_proposer :: "(flow_Address \<times> nat) option"
  tx_signed :: bool

definition test_new_tx :: "test_op \<Rightarrow> flowkit_Account \<Rightarrow> test_tx" where
  "test_new_tx op signer =
     \<lparr>tx_op = op, tx_payer = Account_Address signer, tx_block = None, tx_proposer = None,
      tx_signed = False\<rparr>"

text \<open>The builders never fail. A key is valid when its signature algorithm is
  \<open>ECDSA_P256\<close> (2) or \<open>ECDSA_secp256k1\<close> (3) and its hash algorithm is
  \<open>SHA2_256\<close> (1) or \<open>SHA3_256\<close> (3). \<open>Code()\<close> returns the source the script
  was made with.\<close>

definition test_flowkit :: "test_tx flowkit" where
  "test_flowkit =
     \<lparr>NewAddAccountContractTransaction =
        (\<lambda>signer name source args. Inr (test_new_tx (Op_AddContract name source args) signer)),
      NewUpdateAccountContractTransaction =
        (\<lambda>signer name source. Inr (test_new_tx (Op_UpdateContract name source) signer)),
      NewRemoveAccountContractTransaction =
        (\<lambda>signer name. Inr (test_new_tx (Op_RemoveContract name) signer)),
      NewCreateAccountTransaction =
        (\<lambda>signer keys cs. Inr (test_new_tx (Op_CreateAccount keys cs) signer)),
      SetBlockReference = (\<lambda>tx block. tx\<lparr>tx_block := Some block\<rparr>),
      SetProposer = (\<lambda>tx proposer index. Inr (tx\<lparr>tx_proposer := Some (Address proposer, index)\<rparr>)),
      Sign = (\<lambda>tx. Inr (tx\<lparr>tx_signed := True\<rparr>)),
      tx_ID = (\<lambda>tx. ''tx-1''),
      Validate = (\<lambda>k. if SigAlgo k \<in> {2, 3} \<and> HashAlgo k \<in> {1, 3} then None
                       else Some ''signing algorithm is incompatible with hashing algorithm''),
      Script_Code = (\<lambda>contract program. code contract)\<rparr>"

text \<open>A network of accounts that executes what it is sent: a contract transaction sets
  or removes the code under its name on the payer's account, an account-creation
  transaction adds the account \<open>0000000000000001\<close> with the contracts it names. The
  result of a transaction reports the accounts the network holds beside the service
  account as created.\<close>

definition test_execute :: "test_tx \<Rightarrow> flow_Account \<Rightarrow> flow_Account" where
  "test_execute tx acc =
     (if Address acc = tx_payer tx then
        (case tx_op tx of
           Op_AddContract name source _ \<Rightarrow>
             acc\<lparr>Contracts := AList.update name source (Contracts acc)\<rparr>
         | Op_UpdateContract name source \<Rightarrow>
             acc\<lparr>Contracts := AList.update name source (Contracts acc)\<rparr>
         | Op_RemoveContract name \<Rightarrow>
             acc\<lparr>Contracts := AList.delete name (Contracts acc)\<rparr>
         | Op_CreateAccount _ _ \<Rightarrow> acc)
      else acc)"

definition test_created :: "test_tx \<Rightarrow> flow_Account list" where
  "test_created tx =
     (case tx_op tx of
        Op_CreateAccount _ cs \<Rightarrow> [\<lparr>Address = 1, Contracts = map (\<lambda>c. (Name c, Source c)) cs\<rparr>]
      | _ \<Rightarrow> [])"

definition test_gateway :: "(flow_Account list, test_tx) Gateway" where
  "test_gateway =
     \<lparr>GetAccount =
        (\<lambda>address w. (case find (\<lambda>acc. Address acc = address) w of
                         None \<Rightarrow> Inl ''account not found''
                       | Some acc \<Rightarrow> Inr acc, w)),
      GetLatestBlock = (\<lambda>w. (Inr ''block-1'', w)),
      SendSignedTransaction = (\<lambda>tx w. (Inr tx, map (test_execute tx) w @ test_created tx)),
      GetTransactionResult =
        (\<lambda>ident sealed w.
           (Inr \<lparr>Error = None,
                 Events = map AccountCreated
                            (filter (\<lambda>address. address \<noteq> 0xf8d6e0586b0a20c7)
                               (map Address w))\<rparr>, w))\<rparr>"

definition contractB :: Contract where
  "contractB = \<lparr>Contract_Name = ''B'', Contract_Location = ''./contracts/b.cdc'',
                 AccountAddress = 0xf8d6e0586b0a20c7\<rparr>"

definition test_state :: State where
  "test_state =
     \<lparr>DeploymentContractsByNetwork = (\<lambda>network. Inr [contractA, contractB]),
      AliasesForNetwork = (\<lambda>network. []),
      ReadFile = (\<lambda>path. Inl ''file not found'')\<rparr>"

definition test_accounts :: "(flow_Account list, test_tx) Accounts" where
  "test_accounts = \<lparr>gateway = test_gateway, state = Some test_state\<rparr>"

definition test_accounts_no_state :: "(flow_Account list, test_tx) Accounts" where
  "test_accounts_no_state = \<lparr>gateway = test_gateway, state = None\<rparr>"

definition service_account :: flowkit_Account where
  "service_account =
     \<lparr>Account_Name = ''emulator-account'', Account_Address = 0xf8d6e0586b0a20c7, Key_Index = 0\<rparr>"

text \<open>The script of contract \<open>C\<close>, and its source with both imports resolved.\<close>

definition scriptC :: Script where
  "scriptC = \<lparr>code = srcC, Args = [''foo''], location = ''contracts/c.cdc''\<rparr>"

definition srcC_resolved :: string where
  "srcC_resolved =
     ''import A from 0xf8d6e0586b0a20c7 import B from 0xf8d6e0586b0a20c7 pub contract C {}''"

text \<open>Three networks: the account holds nothing, an older \<open>C\<close>, or the very \<open>C\<close>
  that is about to be deployed.\<close>

definition run_empty :: "(flow_Account list, test_tx) run" where
  "run_empty = \<lparr>world = [\<lparr>Address = 0xf8d6e0586b0a20c7, Contracts = []\<rparr>], calls = []\<rparr>"

definition run_old :: "(flow_Account list, test_tx) run" where
  "run_old =
     \<lparr>world = [\<lparr>Address = 0xf8d6e0586b0a20c7,
                Contracts = [(''A'', ''pub contract A {}''), (''C'', ''pub contract C { }'')]\<rparr>],
      calls = []\<rparr>"

definition run_same :: "(flow_Account list, test_tx) run" where
  "run_same =
     \<lparr>world = [\<lparr>Address = 0xf8d6e0586b0a20c7, Contracts = [(''C'', srcC_resolved)]\<rparr>],
      calls = []\<rparr>"

text \<open>What the runs below meet on their way: the resolved program of \<open>C\<close>, the
  account as the second network has it, and the prepared transactions.\<close>

definition progC_resolved :: Program where
  "progC_resolved = \<lparr>script = scriptC\<lparr>code := srcC_resolved\<rparr>\<rparr>"

definition account_empty :: flow_Account where
  "account_empty = \<lparr>Address = 0xf8d6e0586b0a20c7, Contracts = []\<rparr>"

definition account_old :: flow_Account where
  "account_old =
     \<lparr>Address = 0xf8d6e0586b0a20c7,
      Contracts = [(''A'', ''pub contract A {}''), (''C'', ''pub contract C { }'')]\<rparr>"

definition account_same :: flow_Account where
  "account_same = \<lparr>Address = 0xf8d6e0586b0a20c7, Contracts = [(''C'', srcC_resolved)]\<rparr>"

definition test_prepared :: "test_op \<Rightarrow> test_tx" where
  "test_prepared op =
     \<lparr>tx_op = op, tx_payer = 0xf8d6e0586b0a20c7, tx_block = Some ''block-1'',
      tx_proposer = Some (0xf8d6e0586b0a20c7, 0), tx_signed = True\<rparr>"

definition addC_tx :: test_tx where
  "addC_tx = test_prepared (Op_AddContract ''C'' srcC_resolved [''foo''])"

text \<open>Two keys, \<open>ECDSA_P256\<close> with \<open>SHA3_256\<close>, of full weight, and the first
  network after an account has been created with them.\<close>

definition two_keys :: "AccountKey list" where
  "two_keys =
     [\<lparr>PublicKey = ''k1'', SigAlgo = 2, HashAlgo = 3, Weight = 1000\<rparr>,
      \<lparr>PublicKey = ''k2'', SigAlgo = 2, HashAlgo = 3, Weight = 1000\<rparr>]"

definition run_account_created :: "(flow_Account list, test_tx) run" where
  "run_account_created =
     \<lparr>world = [\<lparr>Address = 0xf8d6e0586b0a20c7, Contracts = []\<rparr>,
               \<lparr>Address = 1, Contracts = []\<rparr>],
      calls = [Call_GetLatestBlock, Call_GetAccount 0xf8d6e0586b0a20c7,
               Call_SendSignedTransaction (test_prepared (Op_CreateAccount two_keys [])),
               Call_GetTransactionResult ''tx-1'' True, Call_GetAccount 1]\<rparr>"

text \<open>The first network after the creation of \<open>C\<close>.\<close>

definition run_empty_created :: "(flow_Account list, test_tx) run" where
  "run_empty_created =
     \<lparr>world = [\<lparr>Address = 0xf8d6e0586b0a20c7, Contracts = [(''C'', srcC_resolved)]\<rparr>],
      calls = [Call_GetAccount 0xf8d6e0586b0a20c7, Call_GetLatestBlock,
               Call_GetAccount 0xf8d6e0586b0a20c7, Call_SendSignedTransaction addC_tx,
               Call_GetTransactionResult ''tx-1'' True]\<rparr>"

section \<open>The import replacer\<close>

lemma importLocation_ReplaceImport [simp]:
  "importLocation (ReplaceImport a b p) imp = importLocation p imp"
  by (simp add: importLocation_def ReplaceImport_def Program_Location_def)

lemma Program_Location_ReplaceImport [simp]:
  "Program_Location (ReplaceImport a b p) = Program_Location p"
  by (simp add: ReplaceImport_def Program_Location_def)

lemma Program_Code_ReplaceImport [simp]:
  "Program_Code (ReplaceImport a b p) = bytes_ReplaceAll (Program_Code p) (quoted a) (''0x'' @ b)"
  by (simp add: ReplaceImport_def Program_Code_def)

lemma Replace_loop_resolved:
  "\<forall>x\<in>set xs. T (importLocation P x) \<noteq> None \<Longrightarrow>
   Replace_loop T P xs =
     (Inr (), foldl (\<lambda>p x. ReplaceImport x (the (T (importLocation P x))) p) P xs)"
proof (induction xs arbitrary: P)
  case Nil
  show ?case by simp
next
  case (Cons x xs)
  from Cons.prems obtain t where t: "T (importLocation P x) = Some t" by auto
  have "\<forall>y\<in>set xs. T (importLocation (ReplaceImport x t P) y) \<noteq> None"
    using Cons.prems by simp
  from Cons.IH [OF this] show ?case using t by simp
qed


lemma Program_Code_foldl_ReplaceImport:
  "Program_Code (foldl (\<lambda>p x. ReplaceImport x (f x) p) P xs) =
   foldl (\<lambda>s x. bytes_ReplaceAll s (quoted x) (''0x'' @ f x)) (Program_Code P) xs"
  by (induction xs arbitrary: P) simp_all

lemma Program_Location_foldl_ReplaceImport:
  "Program_Location (foldl (\<lambda>p x. ReplaceImport x (f x) p) P xs) = Program_Location P"
  by (induction xs arbitrary: P) simp_all

lemma foldl_upd_entries:
  "foldl (\<lambda>m x. m(f x \<mapsto> g x)) m0 xs = m0 ++ map_of (rev (map (\<lambda>x. (f x, g x)) xs))"
  by (induction xs arbitrary: m0) (auto simp: map_add_def fun_eq_iff split: option.splits)


text \<open>
  Claim C6. The key \<open>Replace\<close> looks an import up under is the directory of the
  program's own location joined with the import path, cleaned. The table it consults
  holds the contract entries (cleaned location, stringified account address) overridden
  by the alias entries (cleaned location, the hex address converted and stringified by
  the same function); within each group a later entry overrides an earlier one.
  \<open>Replace\<close> is the loop over the imports of the program with that table, and each
  round of the loop is decided by the table at that key.
\<close>

theorem Replace_lookup_key_and_table:
  "importLocation program imp =
     path_Clean (path_Join [path_Dir (location (script program)), imp])
   \<and> getContractsLocations L i =
       map_of (rev (contract_entries L (contracts i))) ++ map_of (rev (alias_entries L (aliases i)))
   \<and> Replace L i program =
       Replace_loop (getContractsLocations L i) program (Imports L program)
   \<and> Replace_loop T program (imp # imps) =
       (case T (importLocation program imp) of
          None \<Rightarrow> (Inl (ErrUnresolvedImport imp), program)
        | Some target \<Rightarrow> Replace_loop T (ReplaceImport imp target program) imps)"
proof -
  have key: "importLocation program imp =
     path_Clean (path_Join [path_Dir (location (script program)), imp])"
    by (simp add: importLocation_def absolutePath_def Program_Location_def)
  have "foldl (\<lambda>m (source, target).
                  m(path_Clean source \<mapsto> Address_String L (HexToAddress L target))) m0 al
        = m0 ++ map_of (rev (alias_entries L al))" for m0 al
    using foldl_upd_entries [of "\<lambda>x. path_Clean (fst x)" "\<lambda>x. Address_String L (HexToAddress L (snd x))" m0 al]
    by (simp add: alias_entries_def case_prod_unfold)
  moreover have "foldl (\<lambda>m contract.
                     m(path_Clean (Contract_Location contract) \<mapsto>
                         Address_String L (AccountAddress contract))) Map.empty cs
        = map_of (rev (contract_entries L cs))" for cs
    using foldl_upd_entries [of "\<lambda>c. path_Clean (Contract_Location c)" "\<lambda>c. Address_String L (AccountAddress c)" Map.empty cs]
    by (simp add: contract_entries_def)
  ultimately have tab: "getContractsLocations L i =
       map_of (rev (contract_entries L (contracts i))) ++ map_of (rev (alias_entries L (aliases i)))"
    by (simp add: getContractsLocations_def)
  have rep: "Replace L i program =
       Replace_loop (getContractsLocations L i) program (Imports L program)"
    by (simp add: Replace_def)
  show ?thesis using key tab rep by simp
qed


text \<open>An alias for the file of a contract of the project overrides the contract's
  entry: \<open>contracts//a.cdc\<close> cleans to the key of contract \<open>A\<close>.\<close>

lemma getContractsLocations_alias_overrides:
  "getContractsLocations test_libs replA ''contracts/a.cdc'' = Some ''f8d6e0586b0a20c7''
   \<and> getContractsLocations test_libs replAlias ''contracts/a.cdc'' = Some ''0000000000000001''"
  by code_simp



text \<open>Occurrences of a quoted path under \<open>bytes.ReplaceAll\<close>.\<close>

lemma bytes_Contains_sublist: "bytes_Contains s sub = sublist sub s"
  by (induction s) (auto simp: sublist_Cons_right)

lemma bytes_ReplaceAll_Nil [simp]: "old \<noteq> [] \<Longrightarrow> bytes_ReplaceAll [] old new = []"
  by (simp add: bytes_ReplaceAll.simps)

lemma bytes_ReplaceAll_match:
  "old \<noteq> [] \<Longrightarrow> bytes_ReplaceAll (old @ s) old new = new @ bytes_ReplaceAll s old new"
  by (subst bytes_ReplaceAll.simps) simp

lemma bytes_ReplaceAll_skip:
  "old \<noteq> [] \<Longrightarrow> \<not> prefix old (c # cs) \<Longrightarrow>
   bytes_ReplaceAll (c # cs) old new = c # bytes_ReplaceAll cs old new"
  by (subst bytes_ReplaceAll.simps) simp

lemma sublist_skip_free:
  "q \<notin> set N \<Longrightarrow> sublist (q # X) (N @ C) \<Longrightarrow> sublist (q # X) C"
  by (induction N) (auto simp: sublist_Cons_right)

lemma prefix_quoted_across:
  assumes pre: "prefix (quoted p) (A @ new @ C)"
    and qn: "CHR 0x22 \<notin> set new" and np: "\<not> sublist new p"
    and nA: "\<not> prefix (quoted p) A" and A: "A \<noteq> []"
  shows False
proof -
  from pre nA obtain us where us: "quoted p = A @ us" "prefix us (new @ C)"
    by (auto simp: prefix_append)
  from us(2) consider "prefix us new" | vs where "us = new @ vs"
    by (auto simp: prefix_append)
  then show False
  proof cases
    case 1
    then have "set us \<subseteq> set new" by (auto simp: prefix_def)
    with qn have q: "CHR 0x22 \<notin> set us" by auto
    have "us \<noteq> []" using us(1) nA by auto
    then have "last (quoted p) = last us" using us(1) by simp
    moreover have "last (quoted p) = CHR 0x22" by (simp add: quoted_def)
    ultimately show False using q \<open>us \<noteq> []\<close> last_in_set by metis
  next
    case 2
    from A obtain a A' where AA: "A = a # A'" by (cases A) auto
    with us(1) 2 have e: "p @ [CHR 0x22] = A' @ new @ vs" by (auto simp: quoted_def)
    show False
    proof (cases vs rule: rev_cases)
      case Nil
      with e have "p @ [CHR 0x22] = A' @ new" by simp
      moreover have "new \<noteq> []" using np by auto
      ultimately have "last new = CHR 0x22"
        by (metis last_appendR last_snoc)
      with qn \<open>new \<noteq> []\<close> show False using last_in_set by metis
    next
      case (snoc vs' v)
      with e have "p = A' @ new @ vs'" by simp
      then have "sublist new p" by (auto simp: sublist_def)
      with np show False ..
    qed
  qed
qed

lemma no_quoted_across:
  assumes qn: "CHR 0x22 \<notin> set new" and np: "\<not> sublist new p"
    and nA: "\<not> sublist (quoted p) A" and nC: "\<not> sublist (quoted p) C"
  shows "\<not> sublist (quoted p) (A @ new @ C)"
  using nA
proof (induction A)
  case Nil
  have "\<not> sublist (quoted p) (new @ C)"
    using sublist_skip_free [OF qn, of "p @ [CHR 0x22]" C] nC by (auto simp: quoted_def)
  then show ?case by simp
next
  case (Cons a A)
  from Cons.prems have nA': "\<not> sublist (quoted p) A" and np': "\<not> prefix (quoted p) (a # A)"
    by (auto simp: sublist_Cons_right)
  have "\<not> prefix (quoted p) ((a # A) @ new @ C)"
    using prefix_quoted_across [OF _ qn np np'] by blast
  with Cons.IH [OF nA'] show ?case by (simp add: sublist_Cons_right)
qed

lemma ReplaceAll_keeps_absent:
  assumes old: "old \<noteq> []" and qn: "CHR 0x22 \<notin> set new" and np: "\<not> sublist new p"
  shows "\<not> sublist (quoted p) (A @ s) \<Longrightarrow>
         \<not> sublist (quoted p) (A @ bytes_ReplaceAll s old new)"
proof (induction "length s" arbitrary: s A rule: less_induct)
  case less
  show ?case
  proof (cases s)
    case Nil
    with less.prems old show ?thesis by simp
  next
    case (Cons c cs)
    show ?thesis
    proof (cases "prefix old s")
      case True
      then obtain s' where s': "s = old @ s'" by (auto simp: prefix_def)
      have nA: "\<not> sublist (quoted p) A"
        using less.prems unfolding sublist_def by (metis append.assoc)
      have "\<not> sublist (quoted p) ([] @ s')"
        using less.prems unfolding s' sublist_def by (metis append.assoc append_Nil)
      moreover have "length s' < length s" using s' old by simp
      ultimately have "\<not> sublist (quoted p) ([] @ bytes_ReplaceAll s' old new)"
        by (rule less.hyps [rotated])
      then have "\<not> sublist (quoted p) (A @ new @ bytes_ReplaceAll s' old new)"
        using no_quoted_across [OF qn np nA] by simp
      then show ?thesis using s' old by (simp add: bytes_ReplaceAll_match)
    next
      case False
      have "\<not> sublist (quoted p) ((A @ [c]) @ cs)"
        using less.prems Cons by simp
      moreover have "length cs < length s" using Cons by simp
      ultimately have "\<not> sublist (quoted p) ((A @ [c]) @ bytes_ReplaceAll cs old new)"
        by (rule less.hyps [rotated])
      then show ?thesis using False Cons old by (simp add: bytes_ReplaceAll_skip)
    qed
  qed
qed

text \<open>No occurrence of \<open>old\<close> starts inside \<open>A\<close> in \<open>A @ s\<close>.\<close>

lemma ReplaceAll_removes:
  assumes qn: "CHR 0x22 \<notin> set new" and np: "\<not> sublist new p"
  shows "\<forall>A1 A2. A = A1 @ A2 \<and> A2 \<noteq> [] \<longrightarrow> \<not> prefix (quoted p) (A2 @ s) \<Longrightarrow>
         \<not> sublist (quoted p) (A @ bytes_ReplaceAll s (quoted p) new)"
proof (induction "length s" arbitrary: s A rule: less_induct)
  case less
  have old: "quoted p \<noteq> []" by (simp add: quoted_def)
  have nA: "\<not> sublist (quoted p) A" if "\<forall>A1 A2. A = A1 @ A2 \<and> A2 \<noteq> [] \<longrightarrow> \<not> prefix (quoted p) (A2 @ t)" for t A
  proof
    assume "sublist (quoted p) A"
    then obtain ps ss where "A = ps @ quoted p @ ss" by (auto simp: sublist_def)
    with that [rule_format, of ps "quoted p @ ss"] old show False by simp
  qed
  show ?case
  proof (cases s)
    case Nil
    with nA [OF less.prems] old show ?thesis by simp
  next
    case (Cons c cs)
    show ?thesis
    proof (cases "prefix (quoted p) s")
      case True
      then obtain s' where s': "s = quoted p @ s'" by (auto simp: prefix_def)
      have "length s' < length s" using s' old by simp
      moreover have "\<forall>A1 A2. [] = A1 @ A2 \<and> A2 \<noteq> [] \<longrightarrow> \<not> prefix (quoted p) (A2 @ s')"
        by simp
      ultimately have "\<not> sublist (quoted p) ([] @ bytes_ReplaceAll s' (quoted p) new)"
        by (rule less.hyps)
      then have "\<not> sublist (quoted p) (A @ new @ bytes_ReplaceAll s' (quoted p) new)"
        using no_quoted_across [OF qn np nA [OF less.prems]] by simp
      then show ?thesis using s' old by (simp add: bytes_ReplaceAll_match)
    next
      case False
      have "\<forall>A1 A2. A @ [c] = A1 @ A2 \<and> A2 \<noteq> [] \<longrightarrow> \<not> prefix (quoted p) (A2 @ cs)"
      proof (intro allI impI)
        fix A1 A2 assume h: "A @ [c] = A1 @ A2 \<and> A2 \<noteq> []"
        then obtain B where B: "A2 = B @ [c]" "A = A1 @ B"
          by (cases A2 rule: rev_cases) auto
        show "\<not> prefix (quoted p) (A2 @ cs)"
        proof (cases "B = []")
          case True
          with B False Cons show ?thesis by simp
        next
          case False
          with less.prems B Cons show ?thesis by simp
        qed
      qed
      moreover have "length cs < length s" using Cons by simp
      ultimately have "\<not> sublist (quoted p) ((A @ [c]) @ bytes_ReplaceAll cs (quoted p) new)"
        by (rule less.hyps [rotated])
      then show ?thesis using False Cons old by (simp add: bytes_ReplaceAll_skip)
    qed
  qed
qed

lemma ReplaceAll_no_quoted:
  "CHR 0x22 \<notin> set new \<Longrightarrow> \<not> sublist new p \<Longrightarrow>
   \<not> sublist (quoted p) (bytes_ReplaceAll s (quoted p) new)"
  using ReplaceAll_removes [of new p "[]" s] by simp

lemma ReplaceAll_keeps_no_quoted:
  "CHR 0x22 \<notin> set new \<Longrightarrow> \<not> sublist new p \<Longrightarrow> \<not> sublist (quoted p) s \<Longrightarrow>
   \<not> sublist (quoted p) (bytes_ReplaceAll s (quoted p') new)"
  using ReplaceAll_keeps_absent [of "quoted p'" new p "[]" s] by (simp add: quoted_def)

lemma foldl_ReplaceAll_no_quoted:
  assumes "\<forall>y\<in>set xs. CHR 0x22 \<notin> set (f y)"
    and "\<forall>x\<in>S. \<forall>y\<in>set xs. \<not> sublist (''0x'' @ f y) x"
  shows "\<forall>x\<in>S. x \<in> set xs \<or> \<not> sublist (quoted x) c \<Longrightarrow>
         \<forall>x\<in>S. \<not> sublist (quoted x)
                  (foldl (\<lambda>s y. bytes_ReplaceAll s (quoted y) (''0x'' @ f y)) c xs)"
  using assms
proof (induction xs arbitrary: c)
  case Nil
  then show ?case by simp
next
  case (Cons y ys)
  let ?c = "bytes_ReplaceAll c (quoted y) (''0x'' @ f y)"
  have qn: "CHR 0x22 \<notin> set (''0x'' @ f y)" using Cons.prems(2) by simp
  have "\<forall>x\<in>S. x \<in> set ys \<or> \<not> sublist (quoted x) ?c"
  proof
    fix x assume x: "x \<in> S"
    with Cons.prems(3) have np: "\<not> sublist (''0x'' @ f y) x" by simp
    from Cons.prems(1) x consider "x \<in> set ys" | "x = y" | "\<not> sublist (quoted x) c" by auto
    then show "x \<in> set ys \<or> \<not> sublist (quoted x) ?c"
    proof cases
      case 1 then show ?thesis ..
    next
      case 2
      with ReplaceAll_no_quoted [OF qn np] show ?thesis by simp
    next
      case 3
      with ReplaceAll_keeps_no_quoted [OF qn np] show ?thesis by simp
    qed
  qed
  moreover have "\<forall>y\<in>set ys. CHR 0x22 \<notin> set (f y)" using Cons.prems(2) by simp
  moreover have "\<forall>x\<in>S. \<forall>y\<in>set ys. \<not> sublist (''0x'' @ f y) x" using Cons.prems(3) by simp
  ultimately show ?case using Cons.IH by simp
qed

text \<open>
  Claim C5, as amended. When the table has an entry for every import of the program,
  \<open>Replace\<close> succeeds, and the source it leaves is the original source in which, for
  every import in order, every occurrence of the quoted import path has been replaced by
  \<open>0x\<close> and the address string the table maps the import to; the location of the
  program is unchanged. No import path of the program is left in its quotes in that
  source when no import path and no address string contains a double quote and no import
  path contains the text that replaces an import, \<open>0x\<close> and its address string.
\<close>

theorem Replace_complete_table:
  assumes "\<forall>x\<in>set (Imports L program).
             getContractsLocations L i (importLocation program x) \<noteq> None"
  shows "fst (Replace L i program) = Inr ()
       \<and> Program_Code (snd (Replace L i program)) =
           foldl (\<lambda>s x. bytes_ReplaceAll s (quoted x)
                    (''0x'' @ the (getContractsLocations L i (importLocation program x))))
                 (Program_Code program) (Imports L program)
       \<and> Program_Location (snd (Replace L i program)) = Program_Location program
       \<and> ((\<forall>x\<in>set (Imports L program).
              CHR 0x22 \<notin> set x \<and>
              CHR 0x22 \<notin> set (the (getContractsLocations L i (importLocation program x))))
          \<and> (\<forall>x\<in>set (Imports L program). \<forall>y\<in>set (Imports L program).
                \<not> bytes_Contains x
                    (''0x'' @ the (getContractsLocations L i (importLocation program y))))
          \<longrightarrow> (\<forall>x\<in>set (Imports L program).
                \<not> bytes_Contains (Program_Code (snd (Replace L i program))) (quoted x)))"
proof -
  let ?f = "\<lambda>x. the (getContractsLocations L i (importLocation program x))"
  let ?I = "Imports L program"
  have r: "Replace L i program =
             (Inr (), foldl (\<lambda>p x. ReplaceImport x (?f x) p) program ?I)"
    using Replace_loop_resolved [OF assms] by (simp add: Replace_def)
  have c: "Program_Code (snd (Replace L i program)) =
             foldl (\<lambda>s x. bytes_ReplaceAll s (quoted x) (''0x'' @ ?f x)) (Program_Code program) ?I"
    by (simp add: r Program_Code_foldl_ReplaceImport)
  have f: "fst (Replace L i program) = Inr ()"
    by (simp add: r)
  have l: "Program_Location (snd (Replace L i program)) = Program_Location program"
    by (simp add: r Program_Location_foldl_ReplaceImport)
  have g: "\<forall>x\<in>set ?I. \<not> bytes_Contains (Program_Code (snd (Replace L i program))) (quoted x)"
    if q: "\<forall>x\<in>set ?I. CHR 0x22 \<notin> set x \<and> CHR 0x22 \<notin> set (?f x)"
      and n: "\<forall>x\<in>set ?I. \<forall>y\<in>set ?I. \<not> bytes_Contains x (''0x'' @ ?f y)"
  proof -
    have "\<forall>x\<in>set ?I. \<not> sublist (quoted x)
            (foldl (\<lambda>s x. bytes_ReplaceAll s (quoted x) (''0x'' @ ?f x)) (Program_Code program) ?I)"
    proof (rule foldl_ReplaceAll_no_quoted)
      show "\<forall>y\<in>set ?I. CHR 0x22 \<notin> set (?f y)" using q by simp
      show "\<forall>x\<in>set ?I. \<forall>y\<in>set ?I. \<not> sublist (''0x'' @ ?f y) x"
        using n by (simp add: bytes_Contains_sublist)
      show "\<forall>x\<in>set ?I. x \<in> set ?I \<or> \<not> sublist (quoted x) (Program_Code program)" by simp
    qed
    then show ?thesis unfolding c bytes_Contains_sublist .
  qed
  from f c l g show ?thesis by blast
qed

text \<open>
  Claim C5 as stated fails. \<open>E\<close> imports \<open>./0xf8d6e0586b0a20c7.cdc\<close>, which the
  table maps to the address \<open>f8d6e0586b0a20c7\<close>, and a comment of \<open>E\<close> holds that
  import, in its quotes, between \<open>"./\<close> and \<open>.cdc"\<close>. \<open>Replace\<close> succeeds; the
  replacement inside the comment puts the raw import path, in its quotes, back into the
  source.
\<close>

theorem Replace_raw_import_remains_counterexample:
  \<open>Imports test_libs progE = [''./0xf8d6e0586b0a20c7.cdc'']
   \<and> getContractsLocations test_libs replE (importLocation progE ''./0xf8d6e0586b0a20c7.cdc'') =
       Some ''f8d6e0586b0a20c7''
   \<and> fst (Replace test_libs replE progE) = Inr ()
   \<and> Program_Code (snd (Replace test_libs replE progE)) =
        ''import A from 0xf8d6e0586b0a20c7 /* "./0xf8d6e0586b0a20c7.cdc" */ pub contract E {}''
   \<and> bytes_Contains (Program_Code (snd (Replace test_libs replE progE)))
        (quoted ''./0xf8d6e0586b0a20c7.cdc'')\<close>
  by code_simp


theorem Replace_complete_table_witness:
  \<open>getContractsLocations test_libs replA (importLocation progD ''./a.cdc'') =
     Some ''f8d6e0586b0a20c7''
   \<and> fst (Replace test_libs replA progD) = Inr ()
   \<and> Program_Code (snd (Replace test_libs replA progD)) =
        ''/* was 0xf8d6e0586b0a20c7 */ import A from 0xf8d6e0586b0a20c7 pub contract D {}''
   \<and> Program_Location (snd (Replace test_libs replA progD)) = ''contracts/d.cdc''
   \<and> \<not> bytes_Contains (Program_Code (snd (Replace test_libs replA progD))) (quoted ''./a.cdc'')\<close>
proof -
  have i: "Imports test_libs progD = [''./a.cdc'']" by code_simp
  have t: "getContractsLocations test_libs replA (importLocation progD ''./a.cdc'') =
           Some ''f8d6e0586b0a20c7''"
    by code_simp
  have h: "\<forall>x\<in>set (Imports test_libs progD).
             getContractsLocations test_libs replA (importLocation progD x) \<noteq> None"
    by (simp add: i t)
  have c: \<open>bytes_ReplaceAll (Program_Code progD) (quoted ''./a.cdc'') ''0xf8d6e0586b0a20c7''
     = ''/* was 0xf8d6e0586b0a20c7 */ import A from 0xf8d6e0586b0a20c7 pub contract D {}''\<close>
    by code_simp
  have l: "Program_Location progD = ''contracts/d.cdc''" by code_simp
  have q: "CHR 0x22 \<notin> set ''./a.cdc'' \<and> CHR 0x22 \<notin> set ''f8d6e0586b0a20c7''"
    by simp
  have n: "\<not> bytes_Contains ''./a.cdc'' ''0xf8d6e0586b0a20c7''"
    by code_simp
  note r = Replace_complete_table [OF h]
  from r have "fst (Replace test_libs replA progD) = Inr ()" by blast
  moreover from r have \<open>Program_Code (snd (Replace test_libs replA progD)) =
      ''/* was 0xf8d6e0586b0a20c7 */ import A from 0xf8d6e0586b0a20c7 pub contract D {}''\<close>
    by (simp add: i t c)
  moreover from r have "Program_Location (snd (Replace test_libs replA progD)) = ''contracts/d.cdc''"
    by (simp add: l)
  moreover from r [THEN conjunct2, THEN conjunct2, THEN conjunct2] q n
  have "\<not> bytes_Contains (Program_Code (snd (Replace test_libs replA progD))) (quoted ''./a.cdc'')"
    by (simp add: i t)
  ultimately show ?thesis using t by blast
qed

section \<open>The account service: contracts\<close>

lemma sent_append: "sent (xs @ ys) = sent xs @ sent ys"
  by (induction xs rule: sent.induct) simp_all

lemma call_GetAccount_calls:
  "call_GetAccount G address r = (res, r1) \<Longrightarrow> calls r1 = calls r @ [Call_GetAccount address]"
  by (auto simp: call_GetAccount_def split: prod.splits)

lemma call_GetLatestBlock_calls:
  "call_GetLatestBlock G r = (res, r1) \<Longrightarrow> calls r1 = calls r @ [Call_GetLatestBlock]"
  by (auto simp: call_GetLatestBlock_def split: prod.splits)

lemma call_SendSignedTransaction_calls:
  "call_SendSignedTransaction G tx r = (res, r1) \<Longrightarrow>
   calls r1 = calls r @ [Call_SendSignedTransaction tx]"
  by (auto simp: call_SendSignedTransaction_def split: prod.splits)

lemma call_GetTransactionResult_calls:
  "call_GetTransactionResult G ident sealed r = (res, r1) \<Longrightarrow>
   calls r1 = calls r @ [Call_GetTransactionResult ident sealed]"
  by (auto simp: call_GetTransactionResult_def split: prod.splits)

lemma prepareTransaction_sent:
  "prepareTransaction a K tx account r = (res, r1) \<Longrightarrow> sent (calls r1) = sent (calls r)"
  by (auto simp: prepareTransaction_def sent_append
           dest!: call_GetAccount_calls call_GetLatestBlock_calls
           split: prod.splits sum.splits)

text \<open>
  Claim C4. When the target account holds a contract under the extracted name whose bytes
  equal the code of the resolved program, \<open>AddContract\<close> returns \<open>errUpdateNoDiff\<close>,
  whatever \<open>updateExisting\<close> is, and the only Gateway call of the run is the fetch of
  the account: no transaction is sent. The creation transaction is constructed before
  the account is fetched, so the call gets to the comparison when the program, its name
  and that transaction could be made.
\<close>

theorem AddContract_no_diff:
  assumes prog: "AddContract_program L a contract network = Inr program"
    and name: "Program_Name L program = Inr name"
    and add: "NewAddAccountContractTransaction K account name (Program_Code program)
                (Args contract) = Inr tx"
    and acc: "call_GetAccount (gateway a) (Account_Address account) r = (Inr flowAccount, r1)"
    and same: "map_of (Contracts flowAccount) name = Some (Program_Code program)"
  shows "AddContract L K a account contract network updateExisting r = (Inl errUpdateNoDiff, r1)
       \<and> calls r1 = calls r @ [Call_GetAccount (Account_Address account)]
       \<and> sent (calls r1) = sent (calls r)"
proof -
  have c: "calls r1 = calls r @ [Call_GetAccount (Account_Address account)]"
    using acc by (rule call_GetAccount_calls)
  have "AddContract L K a account contract network updateExisting r = (Inl errUpdateNoDiff, r1)"
    by (simp add: AddContract_def prog name add acc same)
  then show ?thesis using c by (simp add: sent_append)
qed

lemma AddContract_send_not_check_error:
  "fst (AddContract_send a K account u tx r) \<noteq> Inl errUpdateNoDiff \<and>
   fst (AddContract_send a K account u tx r) \<noteq> Inl (ErrContractExists n m) \<and>
   fst (AddContract_send a K account u tx r) \<noteq> Inl (ErrRemoveNonExisting n' m')"
  by (auto simp: AddContract_send_def split: prod.splits sum.splits option.splits)

lemma AddContract_send_prepared:
  assumes "prepareTransaction a K tx account r = (Inr tx1, r1)"
  shows "sent (calls (snd (AddContract_send a K account u tx r))) = sent (calls r) @ [tx1]"
proof -
  have p: "sent (calls r1) = sent (calls r)"
    using assms by (rule prepareTransaction_sent)
  obtain res r2 where s: "call_SendSignedTransaction (gateway a) tx1 r1 = (res, r2)"
    by (cases "call_SendSignedTransaction (gateway a) tx1 r1") 
  have c2: "sent (calls r2) = sent (calls r) @ [tx1]"
    using call_SendSignedTransaction_calls [OF s] p by (simp add: sent_append)
  show ?thesis
  proof (cases res)
    case (Inl e)
    then show ?thesis using assms s c2 by (simp add: AddContract_send_def)
  next
    case (Inr sentTx)
    obtain res3 r3 where g: "call_GetTransactionResult (gateway a) (tx_ID K sentTx) True r2 = (res3, r3)"
      by (cases "call_GetTransactionResult (gateway a) (tx_ID K sentTx) True r2")
    have "sent (calls r3) = sent (calls r) @ [tx1]"
      using call_GetTransactionResult_calls [OF g] c2 by (simp add: sent_append)
    then show ?thesis using assms s Inr g
      by (auto simp: AddContract_send_def split: sum.splits option.splits)
  qed
qed

text \<open>
  Claim C10. With \<open>updateExisting\<close> set and no contract of the extracted name on the
  account, the existence checks let the call through: the outcome is that of preparing,
  sending and awaiting the creation transaction, it is neither the no-diff error nor the
  already-exists error, and once the transaction is prepared it is the one transaction
  the run sends.
\<close>

theorem AddContract_update_flag_on_new_contract:
  assumes prog: "AddContract_program L a contract network = Inr program"
    and name: "Program_Name L program = Inr name"
    and add: "NewAddAccountContractTransaction K account name (Program_Code program)
                (Args contract) = Inr tx"
    and acc: "call_GetAccount (gateway a) (Account_Address account) r = (Inr flowAccount, r1)"
    and none: "map_of (Contracts flowAccount) name = None"
  shows "AddContract L K a account contract network True r =
           AddContract_send a K account True tx r1
       \<and> fst (AddContract L K a account contract network True r) \<noteq> Inl errUpdateNoDiff
       \<and> fst (AddContract L K a account contract network True r) \<noteq>
             Inl (ErrContractExists name (Account_Name account))
       \<and> fst (AddContract L K a account contract network True r) \<noteq>
             Inl (ErrRemoveNonExisting name names)
       \<and> (prepareTransaction a K tx account r1 = (Inr tx1, r2) \<longrightarrow>
             sent (calls (snd (AddContract L K a account contract network True r))) =
               sent (calls r) @ [tx1])"
proof -
  have e: "AddContract L K a account contract network True r =
           AddContract_send a K account True tx r1"
    by (simp add: AddContract_def prog name add acc none)
  have s: "sent (calls r1) = sent (calls r)"
    using call_GetAccount_calls [OF acc] by (simp add: sent_append)
  show ?thesis
    using e s
      AddContract_send_not_check_error [of a K account True tx r1 name "Account_Name account"
        name names]
      AddContract_send_prepared [of a K tx account r1 tx1 r2 True]
    by simp
qed

lemma AddContract_send_flag:
  "AddContract_send a K account u tx r = (Inr (ident, updated), r') \<Longrightarrow> updated = u"
  by (auto simp: AddContract_send_def split: prod.splits sum.splits option.splits)

text \<open>
  Claim C3, as amended. The boolean of a successful \<open>AddContract\<close> is the
  \<open>updateExisting\<close> argument. The transaction that ran was an update transaction
  when the account held a contract of that name, and then the boolean is \<open>True\<close>;
  it was a creation transaction when the account held none, and then the boolean is
  whatever \<open>updateExisting\<close> was.
\<close>

theorem AddContract_returns_update_flag:
  assumes "AddContract L K a account contract network updateExisting r =
             (Inr (ident, updated), r')"
  shows "updated = updateExisting
       \<and> (\<exists>program name flowAccount r1 tx'.
             AddContract_program L a contract network = Inr program
           \<and> Program_Name L program = Inr name
           \<and> call_GetAccount (gateway a) (Account_Address account) r = (Inr flowAccount, r1)
           \<and> (if map_of (Contracts flowAccount) name = None
               then NewAddAccountContractTransaction K account name (Program_Code program)
                      (Args contract) = Inr tx'
               else updateExisting
                  \<and> NewUpdateAccountContractTransaction K account name
                      (Script_Code K contract program) = Inr tx')
           \<and> AddContract_send a K account updateExisting tx' r1 = (Inr (ident, updated), r'))"
  using assms
  by (auto simp: AddContract_def Let_def
           split: sum.splits prod.splits if_splits option.splits
           dest: AddContract_send_flag)

text \<open>
  Claim C8. When the account, as the call fetches it, holds no contract of the given
  name, \<open>RemoveContract\<close> fails with the error that carries the name and the names of
  the account's contracts joined by commas; the fetch is the only Gateway call of the run
  and no transaction is sent.
\<close>

theorem RemoveContract_non_existing:
  assumes acc: "call_GetAccount (gateway a) (Account_Address account) r = (Inr flowAcc, r1)"
    and missing: "contractName \<notin> set (map fst (Contracts flowAcc))"
  shows "RemoveContract K a account contractName r =
           (Inl (ErrRemoveNonExisting contractName
                  (strings_Join (map fst (Contracts flowAcc)) '', '')), r1)
       \<and> calls r1 = calls r @ [Call_GetAccount (Account_Address account)]
       \<and> sent (calls r1) = sent (calls r)"
proof -
  have c: "calls r1 = calls r @ [Call_GetAccount (Account_Address account)]"
    using acc by (rule call_GetAccount_calls)
  from missing have "RemoveContract K a account contractName r =
           (Inl (ErrRemoveNonExisting contractName
                  (strings_Join (map fst (Contracts flowAcc)) '', '')), r1)"
    by (simp add: RemoveContract_def acc)
  then show ?thesis using c by (simp add: sent_append)
qed

theorem AddContract_no_diff_witness:
  "AddContract test_libs test_flowkit test_accounts service_account scriptC ''emulator'' True
     run_same =
     (Inl errUpdateNoDiff, run_same\<lparr>calls := [Call_GetAccount 0xf8d6e0586b0a20c7]\<rparr>)
   \<and> sent (calls (run_same\<lparr>calls := [Call_GetAccount 0xf8d6e0586b0a20c7]\<rparr>)) = []"
proof -
  have prog: "AddContract_program test_libs test_accounts scriptC ''emulator'' = Inr progC_resolved"
    by code_simp
  have name: "Program_Name test_libs progC_resolved = Inr ''C''"
    by code_simp
  have add: "NewAddAccountContractTransaction test_flowkit service_account ''C''
               (Program_Code progC_resolved) (Args scriptC) =
             Inr (test_new_tx (Op_AddContract ''C'' srcC_resolved [''foo'']) service_account)"
    by code_simp
  have acc: "call_GetAccount (gateway test_accounts) (Account_Address service_account) run_same =
             (Inr account_same, run_same\<lparr>calls := [Call_GetAccount 0xf8d6e0586b0a20c7]\<rparr>)"
    by code_simp
  have same: "map_of (Contracts account_same) ''C'' = Some (Program_Code progC_resolved)"
    by code_simp
  have s: "sent (calls run_same) = []" by code_simp
  from AddContract_no_diff [OF prog name add acc same, of True] s show ?thesis
    by simp
qed

theorem AddContract_update_flag_on_new_contract_witness:
  "AddContract test_libs test_flowkit test_accounts service_account scriptC ''emulator'' True
     run_empty =
     AddContract_send test_accounts test_flowkit service_account True
       (test_new_tx (Op_AddContract ''C'' srcC_resolved [''foo'']) service_account)
       (run_empty\<lparr>calls := [Call_GetAccount 0xf8d6e0586b0a20c7]\<rparr>)
   \<and> map_of (Contracts account_empty) ''C'' = None
   \<and> sent (calls (snd (AddContract test_libs test_flowkit test_accounts service_account scriptC
                          ''emulator'' True run_empty))) = [addC_tx]"
proof -
  let ?tx = "test_new_tx (Op_AddContract ''C'' srcC_resolved [''foo'']) service_account"
  let ?r1 = "run_empty\<lparr>calls := [Call_GetAccount 0xf8d6e0586b0a20c7]\<rparr>"
  let ?r2 = "run_empty\<lparr>calls := [Call_GetAccount 0xf8d6e0586b0a20c7, Call_GetLatestBlock,
                                   Call_GetAccount 0xf8d6e0586b0a20c7]\<rparr>"
  have prog: "AddContract_program test_libs test_accounts scriptC ''emulator'' = Inr progC_resolved"
    by code_simp
  have name: "Program_Name test_libs progC_resolved = Inr ''C''"
    by code_simp
  have add: "NewAddAccountContractTransaction test_flowkit service_account ''C''
               (Program_Code progC_resolved) (Args scriptC) = Inr ?tx"
    by code_simp
  have acc: "call_GetAccount (gateway test_accounts) (Account_Address service_account) run_empty =
             (Inr account_empty, ?r1)"
    by code_simp
  have none: "map_of (Contracts account_empty) ''C'' = None"
    by code_simp
  have prep: "prepareTransaction test_accounts test_flowkit ?tx service_account ?r1 =
              (Inr addC_tx, ?r2)"
    by code_simp
  have s: "sent (calls run_empty) = []" by code_simp
  note t = AddContract_update_flag_on_new_contract [OF prog name add acc none, of _ addC_tx ?r2]
  from t have "prepareTransaction test_accounts test_flowkit ?tx service_account ?r1 =
                 (Inr addC_tx, ?r2) \<longrightarrow>
               sent (calls (snd (AddContract test_libs test_flowkit test_accounts service_account
                                   scriptC ''emulator'' True run_empty))) =
                 sent (calls run_empty) @ [addC_tx]"
    by blast
  with prep s have b: "sent (calls (snd (AddContract test_libs test_flowkit test_accounts
                          service_account scriptC ''emulator'' True run_empty))) = [addC_tx]"
    by simp
  from t have "AddContract test_libs test_flowkit test_accounts service_account scriptC
                 ''emulator'' True run_empty =
               AddContract_send test_accounts test_flowkit service_account True ?tx ?r1"
    by blast
  with b none show ?thesis by blast
qed

text \<open>
  Claim C3 as stated fails. The account holds no contract and \<open>updateExisting\<close> is
  set: a creation transaction is sent and the boolean returned is \<open>True\<close>.
\<close>

theorem AddContract_returns_update_flag_counterexample:
  "fst (AddContract test_libs test_flowkit test_accounts service_account scriptC ''emulator''
          True run_empty) = Inr (''tx-1'', True)
   \<and> world run_empty = [\<lparr>Address = 0xf8d6e0586b0a20c7, Contracts = []\<rparr>]
   \<and> map tx_op (sent (calls (snd (AddContract test_libs test_flowkit test_accounts
                                      service_account scriptC ''emulator'' True run_empty)))) =
       [Op_AddContract ''C'' srcC_resolved [''foo'']]"
  by code_simp

theorem AddContract_returns_update_flag_witness:
  "AddContract test_libs test_flowkit test_accounts service_account scriptC ''emulator'' False
     run_empty = (Inr (''tx-1'', False), run_empty_created)
   \<and> (\<exists>program name flowAccount r1 tx'.
         AddContract_program test_libs test_accounts scriptC ''emulator'' = Inr program
       \<and> Program_Name test_libs program = Inr name
       \<and> call_GetAccount (gateway test_accounts) (Account_Address service_account) run_empty =
           (Inr flowAccount, r1)
       \<and> (if map_of (Contracts flowAccount) name = None
           then NewAddAccountContractTransaction test_flowkit service_account name
                  (Program_Code program) (Args scriptC) = Inr tx'
           else False
              \<and> NewUpdateAccountContractTransaction test_flowkit service_account name
                  (Script_Code test_flowkit scriptC program) = Inr tx')
       \<and> AddContract_send test_accounts test_flowkit service_account False tx' r1 =
           (Inr (''tx-1'', False), run_empty_created))"
proof -
  have h: "AddContract test_libs test_flowkit test_accounts service_account scriptC ''emulator''
             False run_empty = (Inr (''tx-1'', False), run_empty_created)"
    by code_simp
  from AddContract_returns_update_flag [OF h] h show ?thesis by simp
qed

theorem RemoveContract_non_existing_witness:
  "RemoveContract test_flowkit test_accounts service_account ''B'' run_old =
     (Inl (ErrRemoveNonExisting ''B'' ''A, C''),
      run_old\<lparr>calls := [Call_GetAccount 0xf8d6e0586b0a20c7]\<rparr>)
   \<and> sent (calls (run_old\<lparr>calls := [Call_GetAccount 0xf8d6e0586b0a20c7]\<rparr>)) = []"
proof -
  have acc: "call_GetAccount (gateway test_accounts) (Account_Address service_account) run_old =
             (Inr account_old, run_old\<lparr>calls := [Call_GetAccount 0xf8d6e0586b0a20c7]\<rparr>)"
    by code_simp
  have missing: "''B'' \<notin> set (map fst (Contracts account_old))"
    by code_simp
  have j: "strings_Join (map fst (Contracts account_old)) '', '' = ''A, C''"
    by code_simp
  have s: "sent (calls run_old) = []" by code_simp
  from RemoveContract_non_existing [OF acc missing, of test_flowkit] j s show ?thesis
    by simp
qed

section \<open>The account service: account creation\<close>

lemma Create_accKeys_all_valid:
  assumes "i + length pubKeys \<le> length sigAlgo" and "i + length pubKeys \<le> length hashAlgo"
    and "\<forall>j<length pubKeys.
           Validate K \<lparr>PublicKey = pubKeys ! j, SigAlgo = sigAlgo ! (i + j),
                       HashAlgo = hashAlgo ! (i + j), Weight = AccountKeyWeightThreshold\<rparr> = None"
  shows "Create_accKeys K pubKeys [] sigAlgo hashAlgo i acc =
           Inr (acc @ map (\<lambda>j. \<lparr>PublicKey = pubKeys ! j, SigAlgo = sigAlgo ! (i + j),
                                  HashAlgo = hashAlgo ! (i + j),
                                  Weight = AccountKeyWeightThreshold\<rparr>) [0..<length pubKeys])"
  using assms
proof (induction pubKeys arbitrary: i acc)
  case Nil
  then show ?case by simp
next
  case (Cons p ps)
  from Cons.prems(3) have v: "Validate K \<lparr>PublicKey = p, SigAlgo = sigAlgo ! i,
      HashAlgo = hashAlgo ! i, Weight = AccountKeyWeightThreshold\<rparr> = None"
    by (elim allE [of _ 0]) simp
  have n: "\<forall>j<length ps.
           Validate K \<lparr>PublicKey = ps ! j, SigAlgo = sigAlgo ! (Suc i + j),
                       HashAlgo = hashAlgo ! (Suc i + j), Weight = AccountKeyWeightThreshold\<rparr> = None"
  proof (intro allI impI)
    fix j assume "j < length ps"
    with Cons.prems(3) show "Validate K \<lparr>PublicKey = ps ! j, SigAlgo = sigAlgo ! (Suc i + j),
        HashAlgo = hashAlgo ! (Suc i + j), Weight = AccountKeyWeightThreshold\<rparr> = None"
      by (elim allE [of _ "Suc j"]) simp
  qed
  have "Create_accKeys K ps [] sigAlgo hashAlgo (Suc i)
          (acc @ [\<lparr>PublicKey = p, SigAlgo = sigAlgo ! i, HashAlgo = hashAlgo ! i,
                    Weight = AccountKeyWeightThreshold\<rparr>]) =
        Inr ((acc @ [\<lparr>PublicKey = p, SigAlgo = sigAlgo ! i, HashAlgo = hashAlgo ! i,
                       Weight = AccountKeyWeightThreshold\<rparr>]) @
             map (\<lambda>j. \<lparr>PublicKey = ps ! j, SigAlgo = sigAlgo ! (Suc i + j),
                        HashAlgo = hashAlgo ! (Suc i + j),
                        Weight = AccountKeyWeightThreshold\<rparr>) [0..<length ps])"
    using Cons.prems(1,2) n by (intro Cons.IH) simp_all
  with Cons.prems(1,2) v show ?case
    by (simp add: Let_def map_upt_Suc del: upt_Suc)
qed

lemma Create_accKeys_first_invalid:
  assumes "j < length pubKeys" and "i + j < length sigAlgo" and "i + j < length hashAlgo"
    and "\<forall>l<j.
           Validate K \<lparr>PublicKey = pubKeys ! l, SigAlgo = sigAlgo ! (i + l),
                       HashAlgo = hashAlgo ! (i + l), Weight = AccountKeyWeightThreshold\<rparr> = None"
    and "Validate K \<lparr>PublicKey = pubKeys ! j, SigAlgo = sigAlgo ! (i + j),
                      HashAlgo = hashAlgo ! (i + j), Weight = AccountKeyWeightThreshold\<rparr> = Some err"
  shows "Create_accKeys K pubKeys [] sigAlgo hashAlgo i acc = Inl (ErrInvalidAccountKey err)"
  using assms
proof (induction pubKeys arbitrary: i j acc)
  case Nil
  then show ?case by simp
next
  case (Cons p ps)
  show ?case
  proof (cases j)
    case 0
    with Cons.prems show ?thesis by (simp add: Let_def)
  next
    case (Suc j')
    from Cons.prems(4) Suc have v: "Validate K \<lparr>PublicKey = p, SigAlgo = sigAlgo ! i,
        HashAlgo = hashAlgo ! i, Weight = AccountKeyWeightThreshold\<rparr> = None"
      by (elim allE [of _ 0]) simp
    have n: "\<forall>l<j'.
           Validate K \<lparr>PublicKey = ps ! l, SigAlgo = sigAlgo ! (Suc i + l),
                       HashAlgo = hashAlgo ! (Suc i + l), Weight = AccountKeyWeightThreshold\<rparr> = None"
    proof (intro allI impI)
      fix l assume "l < j'"
      with Cons.prems(4) Suc show "Validate K \<lparr>PublicKey = ps ! l, SigAlgo = sigAlgo ! (Suc i + l),
          HashAlgo = hashAlgo ! (Suc i + l), Weight = AccountKeyWeightThreshold\<rparr> = None"
        by (elim allE [of _ "Suc l"]) simp
    qed
    have "Create_accKeys K ps [] sigAlgo hashAlgo (Suc i)
            (acc @ [\<lparr>PublicKey = p, SigAlgo = sigAlgo ! i, HashAlgo = hashAlgo ! i,
                      Weight = AccountKeyWeightThreshold\<rparr>]) = Inl (ErrInvalidAccountKey err)"
      using Cons.prems(1,2,3,5) Suc n by (intro Cons.IH [of j']) simp_all
    with Cons.prems(2,3) v show ?thesis by (simp add: Let_def)
  qed
qed

lemma Create_accKeys_no_panic:
  "i + length pubKeys \<le> length sigAlgo \<Longrightarrow> i + length pubKeys \<le> length hashAlgo \<Longrightarrow>
   Create_accKeys K pubKeys keyWeights sigAlgo hashAlgo i acc \<noteq> Inl (PanicIndexOutOfRange x n)"
proof (induction pubKeys arbitrary: i acc)
  case Nil
  then show ?case by simp
next
  case (Cons p ps)
  then show ?case by (simp add: Let_def split: option.splits)
qed

lemma Create_contracts_no_panic:
  "Create_contracts st contractArgs cs \<noteq> Inl (PanicIndexOutOfRange x n)"
  by (induction st contractArgs cs rule: Create_contracts.induct)
     (auto split: list.splits sum.splits)

lemma Create_send_no_panic:
  "fst (Create_send a K signer tx r) \<noteq> Inl (PanicIndexOutOfRange x n)"
  by (auto simp: Create_send_def split: prod.splits sum.splits option.splits list.splits)

lemma Create_accKeys_panic:
  assumes "i \<le> m" and "m < i + length pubKeys"
    and "m = min (length sigAlgo) (length hashAlgo)"
    and "\<forall>j. i \<le> j \<and> j < m \<longrightarrow>
           Validate K \<lparr>PublicKey = pubKeys ! (j - i), SigAlgo = sigAlgo ! j, HashAlgo = hashAlgo ! j,
                       Weight = (if length keyWeights > j then keyWeights ! j
                                 else AccountKeyWeightThreshold)\<rparr> = None"
  shows "Create_accKeys K pubKeys keyWeights sigAlgo hashAlgo i acc =
           Inl (PanicIndexOutOfRange m m)"
  using assms
proof (induction pubKeys arbitrary: i acc)
  case Nil
  from Nil.prems(1,2) have False by simp
  then show ?case ..
next
  case (Cons p ps)
  show ?case
  proof (cases "i = m")
    case True
    with Cons.prems(3) show ?thesis by (auto simp: Let_def min_def split: if_splits)
  next
    case False
    with Cons.prems(1) have lt: "i < m" by simp
    have "m \<le> length sigAlgo" and "m \<le> length hashAlgo"
      using Cons.prems(3) by simp_all
    with lt have s: "i < length sigAlgo" and h: "i < length hashAlgo" by simp_all
    have v: "Validate K \<lparr>PublicKey = p, SigAlgo = sigAlgo ! i, HashAlgo = hashAlgo ! i,
                       Weight = (if length keyWeights > i then keyWeights ! i
                                 else AccountKeyWeightThreshold)\<rparr> = None"
      using Cons.prems(4) lt by (elim allE [of _ i]) simp
    have n: "\<forall>j. Suc i \<le> j \<and> j < m \<longrightarrow>
           Validate K \<lparr>PublicKey = ps ! (j - Suc i), SigAlgo = sigAlgo ! j, HashAlgo = hashAlgo ! j,
                       Weight = (if length keyWeights > j then keyWeights ! j
                                 else AccountKeyWeightThreshold)\<rparr> = None"
    proof (intro allI impI)
      fix j assume j: "Suc i \<le> j \<and> j < m"
      then have "j - i = Suc (j - Suc i)" by arith
      then have "(p # ps) ! (j - i) = ps ! (j - Suc i)" by simp
      with Cons.prems(4) j show "Validate K \<lparr>PublicKey = ps ! (j - Suc i), SigAlgo = sigAlgo ! j, HashAlgo = hashAlgo ! j,
                       Weight = (if length keyWeights > j then keyWeights ! j
                                 else AccountKeyWeightThreshold)\<rparr> = None"
        by (elim allE [of _ j]) simp
    qed
    have "Create_accKeys K ps keyWeights sigAlgo hashAlgo (Suc i) 
            (acc @ [\<lparr>PublicKey = p, SigAlgo = sigAlgo ! i, HashAlgo = hashAlgo ! i,
                       Weight = (if length keyWeights > i then keyWeights ! i
                                 else AccountKeyWeightThreshold)\<rparr>]) = Inl (PanicIndexOutOfRange m m)"
      using lt Cons.prems(2,3) n by (intro Cons.IH) simp_all
    then show ?thesis using s h v by (simp add: Let_def)
  qed
qed

text \<open>
  Claim C7, as amended. On a service without a project state \<open>Create\<close> fails with
  \<open>config.ErrDoesNotExist\<close>. On a service that has one, a non-empty weight list whose
  length differs from the number of public keys makes \<open>Create\<close> fail with the
  count-mismatch error. In both cases the run is untouched: no Gateway call has been
  made. With no weights given, every key \<open>Create\<close> constructs carries the full-weight
  threshold: when all of them are valid, the keys handed to the creation transaction are
  the public keys with their algorithms and that weight; when one is not, it is the key
  of that weight that is refused; and when an algorithm is missing, the keys of that
  weight before it have been validated.
\<close>

theorem Create_weights:
  "(state a = None \<longrightarrow>
      Create K a signer pubKeys keyWeights sigAlgo hashAlgo contractArgs r =
        (Inl ErrDoesNotExist, r))
   \<and> (state a = Some st \<and> keyWeights \<noteq> [] \<and> length pubKeys \<noteq> length keyWeights \<longrightarrow>
      Create K a signer pubKeys keyWeights sigAlgo hashAlgo contractArgs r =
        (Inl (ErrKeysWeightsMismatch (length pubKeys) (length keyWeights)), r))
   \<and> (state a = Some st
      \<and> length pubKeys \<le> length sigAlgo \<and> length pubKeys \<le> length hashAlgo
      \<and> (\<forall>j<length pubKeys.
            Validate K \<lparr>PublicKey = pubKeys ! j, SigAlgo = sigAlgo ! j, HashAlgo = hashAlgo ! j,
                        Weight = AccountKeyWeightThreshold\<rparr> = None) \<longrightarrow>
      Create K a signer pubKeys [] sigAlgo hashAlgo contractArgs r =
        (case Create_contracts st contractArgs [] of
           Inl err \<Rightarrow> (Inl err, r)
         | Inr cs \<Rightarrow>
             (case NewCreateAccountTransaction K signer
                     (map (\<lambda>j. \<lparr>PublicKey = pubKeys ! j, SigAlgo = sigAlgo ! j,
                                  HashAlgo = hashAlgo ! j,
                                  Weight = AccountKeyWeightThreshold\<rparr>) [0..<length pubKeys])
                     cs of
                Inl err \<Rightarrow> (Inl (ErrExternal err), r)
              | Inr tx \<Rightarrow> Create_send a K signer tx r)))
   \<and> (state a = Some st
      \<and> i < length pubKeys \<and> i < length sigAlgo \<and> i < length hashAlgo
      \<and> (\<forall>j<i.
            Validate K \<lparr>PublicKey = pubKeys ! j, SigAlgo = sigAlgo ! j, HashAlgo = hashAlgo ! j,
                        Weight = AccountKeyWeightThreshold\<rparr> = None)
      \<and> Validate K \<lparr>PublicKey = pubKeys ! i, SigAlgo = sigAlgo ! i, HashAlgo = hashAlgo ! i,
                      Weight = AccountKeyWeightThreshold\<rparr> = Some err \<longrightarrow>
      Create K a signer pubKeys [] sigAlgo hashAlgo contractArgs r =
        (Inl (ErrInvalidAccountKey err), r))
   \<and> (state a = Some st
      \<and> m = min (length sigAlgo) (length hashAlgo) \<and> m < length pubKeys
      \<and> (\<forall>j<m.
            Validate K \<lparr>PublicKey = pubKeys ! j, SigAlgo = sigAlgo ! j, HashAlgo = hashAlgo ! j,
                        Weight = AccountKeyWeightThreshold\<rparr> = None) \<longrightarrow>
      Create K a signer pubKeys [] sigAlgo hashAlgo contractArgs r =
        (Inl (PanicIndexOutOfRange m m), r))"
proof (intro conjI impI)
  assume "state a = None"
  then show "Create K a signer pubKeys keyWeights sigAlgo hashAlgo contractArgs r =
        (Inl ErrDoesNotExist, r)"
    by (simp add: Create_def)
next
  assume "state a = Some st \<and> keyWeights \<noteq> [] \<and> length pubKeys \<noteq> length keyWeights"
  then show "Create K a signer pubKeys keyWeights sigAlgo hashAlgo contractArgs r =
        (Inl (ErrKeysWeightsMismatch (length pubKeys) (length keyWeights)), r)"
    by (simp add: Create_def)
next
  assume h: "state a = Some st
      \<and> length pubKeys \<le> length sigAlgo \<and> length pubKeys \<le> length hashAlgo
      \<and> (\<forall>j<length pubKeys.
            Validate K \<lparr>PublicKey = pubKeys ! j, SigAlgo = sigAlgo ! j, HashAlgo = hashAlgo ! j,
                        Weight = AccountKeyWeightThreshold\<rparr> = None)"
  then have "Create_accKeys K pubKeys [] sigAlgo hashAlgo 0 [] =
      Inr ([] @ map (\<lambda>j. \<lparr>PublicKey = pubKeys ! j, SigAlgo = sigAlgo ! (0 + j),
                           HashAlgo = hashAlgo ! (0 + j),
                           Weight = AccountKeyWeightThreshold\<rparr>) [0..<length pubKeys])"
    by (intro Create_accKeys_all_valid) simp_all
  with h show "Create K a signer pubKeys [] sigAlgo hashAlgo contractArgs r =
        (case Create_contracts st contractArgs [] of
           Inl err \<Rightarrow> (Inl err, r)
         | Inr cs \<Rightarrow>
             (case NewCreateAccountTransaction K signer
                     (map (\<lambda>j. \<lparr>PublicKey = pubKeys ! j, SigAlgo = sigAlgo ! j,
                                  HashAlgo = hashAlgo ! j,
                                  Weight = AccountKeyWeightThreshold\<rparr>) [0..<length pubKeys])
                     cs of
                Inl err \<Rightarrow> (Inl (ErrExternal err), r)
              | Inr tx \<Rightarrow> Create_send a K signer tx r))"
    by (simp add: Create_def)
next
  assume h: "state a = Some st
      \<and> i < length pubKeys \<and> i < length sigAlgo \<and> i < length hashAlgo
      \<and> (\<forall>j<i.
            Validate K \<lparr>PublicKey = pubKeys ! j, SigAlgo = sigAlgo ! j, HashAlgo = hashAlgo ! j,
                        Weight = AccountKeyWeightThreshold\<rparr> = None)
      \<and> Validate K \<lparr>PublicKey = pubKeys ! i, SigAlgo = sigAlgo ! i, HashAlgo = hashAlgo ! i,
                      Weight = AccountKeyWeightThreshold\<rparr> = Some err"
  then have "Create_accKeys K pubKeys [] sigAlgo hashAlgo 0 [] = Inl (ErrInvalidAccountKey err)"
    by (intro Create_accKeys_first_invalid [of i]) simp_all
  with h show "Create K a signer pubKeys [] sigAlgo hashAlgo contractArgs r =
        (Inl (ErrInvalidAccountKey err), r)"
    by (simp add: Create_def)
next
  assume h: "state a = Some st
      \<and> m = min (length sigAlgo) (length hashAlgo) \<and> m < length pubKeys
      \<and> (\<forall>j<m.
            Validate K \<lparr>PublicKey = pubKeys ! j, SigAlgo = sigAlgo ! j, HashAlgo = hashAlgo ! j,
                        Weight = AccountKeyWeightThreshold\<rparr> = None)"
  then have "Create_accKeys K pubKeys [] sigAlgo hashAlgo 0 [] = Inl (PanicIndexOutOfRange m m)"
    by (intro Create_accKeys_panic) simp_all
  with h show "Create K a signer pubKeys [] sigAlgo hashAlgo contractArgs r =
        (Inl (PanicIndexOutOfRange m m), r)"
    by (simp add: Create_def)
qed

text \<open>
  Claim C9. \<open>Create\<close> reads \<open>sigAlgo[i]\<close> and \<open>hashAlgo[i]\<close> for every public key
  without checking the lengths. When both lists are at least as long as the list of
  public keys, \<open>Create\<close> does not panic on an index. When one of them is shorter,
  the weights pass the count check and the keys before the missing entry are valid,
  \<open>Create\<close> panics with index out of range at the first missing entry, before any
  Gateway call.
\<close>

theorem Create_algorithm_index:
  "(length pubKeys \<le> length sigAlgo \<and> length pubKeys \<le> length hashAlgo \<longrightarrow>
      fst (Create K a signer pubKeys keyWeights sigAlgo hashAlgo contractArgs r) \<noteq>
        Inl (PanicIndexOutOfRange i n))
   \<and> (state a = Some st
      \<and> (keyWeights = [] \<or> length pubKeys = length keyWeights)
      \<and> m = min (length sigAlgo) (length hashAlgo) \<and> m < length pubKeys
      \<and> (\<forall>j<m. Validate K \<lparr>PublicKey = pubKeys ! j, SigAlgo = sigAlgo ! j,
                              HashAlgo = hashAlgo ! j,
                              Weight = (if length keyWeights > j then keyWeights ! j
                                        else AccountKeyWeightThreshold)\<rparr> = None) \<longrightarrow>
      Create K a signer pubKeys keyWeights sigAlgo hashAlgo contractArgs r =
        (Inl (PanicIndexOutOfRange m m), r))"
proof (intro conjI impI)
  assume "length pubKeys \<le> length sigAlgo \<and> length pubKeys \<le> length hashAlgo"
  then have "Create_accKeys K pubKeys keyWeights sigAlgo hashAlgo 0 [] \<noteq>
      Inl (PanicIndexOutOfRange i n)"
    by (intro Create_accKeys_no_panic) simp_all
  then show "fst (Create K a signer pubKeys keyWeights sigAlgo hashAlgo contractArgs r) \<noteq>
        Inl (PanicIndexOutOfRange i n)"
    using Create_contracts_no_panic [of _ contractArgs "[]" i n]
      Create_send_no_panic [of a K signer _ r i n]
    by (auto simp: Create_def split: option.splits sum.splits)
next
  assume h: "state a = Some st
      \<and> (keyWeights = [] \<or> length pubKeys = length keyWeights)
      \<and> m = min (length sigAlgo) (length hashAlgo) \<and> m < length pubKeys
      \<and> (\<forall>j<m. Validate K \<lparr>PublicKey = pubKeys ! j, SigAlgo = sigAlgo ! j,
                              HashAlgo = hashAlgo ! j,
                              Weight = (if length keyWeights > j then keyWeights ! j
                                        else AccountKeyWeightThreshold)\<rparr> = None)"
  then have "Create_accKeys K pubKeys keyWeights sigAlgo hashAlgo 0 [] =
           Inl (PanicIndexOutOfRange m m)"
    by (intro Create_accKeys_panic) simp_all
  with h show "Create K a signer pubKeys keyWeights sigAlgo hashAlgo contractArgs r =
        (Inl (PanicIndexOutOfRange m m), r)"
    by (auto simp: Create_def)
qed

text \<open>
  Claim C7 as stated fails. On a service without a project state, one weight for two keys
  gives \<open>config.ErrDoesNotExist\<close>, not the count-mismatch error.
\<close>

theorem Create_weights_counterexample:
  "[500 :: int] \<noteq> []
   \<and> length [''k1'', ''k2''] \<noteq> length [500 :: int]
   \<and> Create test_flowkit test_accounts_no_state service_account [''k1'', ''k2''] [500] [2, 2]
       [3, 3] [] run_empty = (Inl ErrDoesNotExist, run_empty)"
  by code_simp

theorem Create_weights_witness:
  "Create test_flowkit test_accounts_no_state service_account [''k1'', ''k2''] [] [2, 2] [3, 3] []
     run_empty = (Inl ErrDoesNotExist, run_empty)
   \<and> Create test_flowkit test_accounts service_account [''k1'', ''k2''] [500] [2, 2] [3, 3] []
       run_empty = (Inl (ErrKeysWeightsMismatch 2 1), run_empty)
   \<and> Create test_flowkit test_accounts service_account [''k1'', ''k2''] [] [2, 2] [3, 3] []
       run_empty = (Inr \<lparr>Address = 1, Contracts = []\<rparr>, run_account_created)
   \<and> sent (calls run_account_created) = [test_prepared (Op_CreateAccount two_keys [])]
   \<and> map Weight two_keys = [AccountKeyWeightThreshold, AccountKeyWeightThreshold]
   \<and> Create test_flowkit test_accounts service_account [''k1'', ''k2''] [] [2, 1] [3, 3] []
       run_empty =
       (Inl (ErrInvalidAccountKey ''signing algorithm is incompatible with hashing algorithm''),
        run_empty)
   \<and> Create test_flowkit test_accounts service_account [''k1'', ''k2''] [] [2, 2] [3] []
       run_empty = (Inl (PanicIndexOutOfRange 1 1), run_empty)"
proof -
  have none: "state test_accounts_no_state = None" by (simp add: test_accounts_no_state_def)
  have st: "state test_accounts = Some test_state" by (simp add: test_accounts_def)
  have a: "Create test_flowkit test_accounts_no_state service_account [''k1'', ''k2''] [] [2, 2]
             [3, 3] [] run_empty = (Inl ErrDoesNotExist, run_empty)"
    using Create_weights [of test_accounts_no_state test_flowkit service_account
        "[''k1'', ''k2'']" "[]" "[2, 2]" "[3, 3]" "[]" run_empty] none
    by simp
  have b: "Create test_flowkit test_accounts service_account [''k1'', ''k2''] [500] [2, 2] [3, 3] []
             run_empty = (Inl (ErrKeysWeightsMismatch 2 1), run_empty)"
    using Create_weights [of test_accounts test_flowkit service_account
        "[''k1'', ''k2'']" "[500]" "[2, 2]" "[3, 3]" "[]" run_empty test_state] st
    by simp
  have v: "\<forall>j<length [''k1'', ''k2''].
             Validate test_flowkit
               \<lparr>PublicKey = [''k1'', ''k2''] ! j, SigAlgo = [2, 2] ! j, HashAlgo = [3, 3] ! j,
                Weight = AccountKeyWeightThreshold\<rparr> = None"
    by (simp add: test_flowkit_def less_Suc_eq)
  have k: "[\<lparr>PublicKey = ''k1'', SigAlgo = 2, HashAlgo = 3, Weight = AccountKeyWeightThreshold\<rparr>,
            \<lparr>PublicKey = ''k2'', SigAlgo = 2, HashAlgo = 3, Weight = AccountKeyWeightThreshold\<rparr>] =
           two_keys"
    by (simp add: two_keys_def AccountKeyWeightThreshold_def)
  have cs: "Create_contracts test_state [] [] = Inr []" by simp
  have tx: "NewCreateAccountTransaction test_flowkit service_account two_keys [] =
              Inr (test_new_tx (Op_CreateAccount two_keys []) service_account)"
    by (simp add: test_flowkit_def)
  have sd: "Create_send test_accounts test_flowkit service_account
              (test_new_tx (Op_CreateAccount two_keys []) service_account) run_empty =
            (Inr \<lparr>Address = 1, Contracts = []\<rparr>, run_account_created)"
    by code_simp
  have c: "Create test_flowkit test_accounts service_account [''k1'', ''k2''] [] [2, 2] [3, 3] []
             run_empty = (Inr \<lparr>Address = 1, Contracts = []\<rparr>, run_account_created)"
    using Create_weights [of test_accounts test_flowkit service_account
        "[''k1'', ''k2'']" "[]" "[2, 2]" "[3, 3]" "[]" run_empty test_state,
        THEN conjunct2, THEN conjunct2, THEN conjunct1] st v
    by (simp add: k cs tx sd)
  have s: "sent (calls run_account_created) = [test_prepared (Op_CreateAccount two_keys [])]"
    by code_simp
  have w: "map Weight two_keys = [AccountKeyWeightThreshold, AccountKeyWeightThreshold]"
    by code_simp
  have v0: "\<forall>j<1. Validate test_flowkit
               \<lparr>PublicKey = [''k1'', ''k2''] ! j, SigAlgo = [2, 1] ! j, HashAlgo = [3, 3] ! j,
                Weight = AccountKeyWeightThreshold\<rparr> = None"
    by (simp add: test_flowkit_def)
  have v1: "Validate test_flowkit
               \<lparr>PublicKey = [''k1'', ''k2''] ! 1, SigAlgo = [2, 1] ! 1, HashAlgo = [3, 3] ! 1,
                Weight = AccountKeyWeightThreshold\<rparr> =
            Some ''signing algorithm is incompatible with hashing algorithm''"
    by (simp add: test_flowkit_def)
  have d: "Create test_flowkit test_accounts service_account [''k1'', ''k2''] [] [2, 1] [3, 3] []
             run_empty =
           (Inl (ErrInvalidAccountKey ''signing algorithm is incompatible with hashing algorithm''),
            run_empty)"
    using Create_weights [of test_accounts test_flowkit service_account
        "[''k1'', ''k2'']" "[]" "[2, 1]" "[3, 3]" "[]" run_empty test_state 1
        "''signing algorithm is incompatible with hashing algorithm''",
        THEN conjunct2, THEN conjunct2, THEN conjunct2, THEN conjunct1] st v0 v1
    by simp
  have v2: "\<forall>j<1. Validate test_flowkit
               \<lparr>PublicKey = [''k1'', ''k2''] ! j, SigAlgo = [2, 2] ! j, HashAlgo = [3] ! j,
                Weight = AccountKeyWeightThreshold\<rparr> = None"
    by (simp add: test_flowkit_def)
  have e: "Create test_flowkit test_accounts service_account [''k1'', ''k2''] [] [2, 2] [3] []
             run_empty = (Inl (PanicIndexOutOfRange 1 1), run_empty)"
    using Create_weights [of test_accounts test_flowkit service_account
        "[''k1'', ''k2'']" "[]" "[2, 2]" "[3]" "[]" run_empty test_state _ _ 1,
        THEN conjunct2, THEN conjunct2, THEN conjunct2, THEN conjunct2] st v2
    by simp
  from a b c s w d e show ?thesis by blast
qed

theorem Create_algorithm_index_witness:
  "fst (Create test_flowkit test_accounts service_account [''k1'', ''k2''] [] [2, 2] [3, 3] []
          run_empty) \<noteq> Inl (PanicIndexOutOfRange 1 1)
   \<and> Create test_flowkit test_accounts service_account [''k1'', ''k2''] [] [2] [3, 3] []
       run_empty = (Inl (PanicIndexOutOfRange 1 1), run_empty)"
proof -
  have st: "state test_accounts = Some test_state" by (simp add: test_accounts_def)
  have v: "\<forall>j<1. Validate test_flowkit
             \<lparr>PublicKey = [''k1'', ''k2''] ! j, SigAlgo = [2] ! j, HashAlgo = [3, 3] ! j,
              Weight = (if length ([] :: int list) > j then [] ! j
                        else AccountKeyWeightThreshold)\<rparr> = None"
    by (simp add: test_flowkit_def)
  from Create_algorithm_index [of "[''k1'', ''k2'']" "[2, 2]" "[3, 3]" test_flowkit test_accounts
      service_account "[]" "[]" run_empty 1 1]
  have a: "fst (Create test_flowkit test_accounts service_account [''k1'', ''k2''] [] [2, 2] [3, 3] []
          run_empty) \<noteq> Inl (PanicIndexOutOfRange 1 1)"
    by simp
  from Create_algorithm_index [of "[''k1'', ''k2'']" "[2]" "[3, 3]" test_flowkit test_accounts
      service_account "[]" "[]" run_empty _ _ test_state 1] st v
  have b: "Create test_flowkit test_accounts service_account [''k1'', ''k2''] [] [2] [3, 3] []
       run_empty = (Inl (PanicIndexOutOfRange 1 1), run_empty)"
    by simp
  from a b show ?thesis by blast
qed

end
